theory Spec2Isabelle
  imports Complex_Main "HOL-Library.AList"
begin

section \<open>Numbers\<close>

text \<open>
  Python \<open>int\<close> is \<^typ>\<open>int\<close>. In the rates, sums and scores a finite Python \<open>float\<close>
  is modelled by the real number it stands for, with exact arithmetic: the binary64
  rounding of each division, product and sum is not modelled there. \<open>round(x, n)\<close> is
  rounding to \<open>n\<close> decimals, ties to even, of that real. Where the exact quotient is a
  decimal tie the float computation can land on the other side of it (23 of 80 is
  exactly 28.75 and rounds to 28.8 here, while the float product is just below 28.75
  and Python rounds it to 28.7); the values evaluated in this theory are not of that
  kind, and the bounds proved hold for the float computation as well, since rounding
  is monotone.
\<close>

definition round_half_even :: "real \<Rightarrow> int" where
  "round_half_even y =
     (let f = \<lfloor>y\<rfloor>; d = y - of_int f
      in if d < 1 / 2 then f else if 1 / 2 < d then f + 1 else if even f then f else f + 1)"

definition py_round :: "real \<Rightarrow> nat \<Rightarrow> real" where
  "py_round x ndigits = of_int (round_half_even (x * 10 ^ ndigits)) / 10 ^ ndigits"

section \<open>Derived rate fields of the record normalizers\<close>

text \<open>
  \<open>data_import/parser.py\<close>, \<open>DatasetParser.parse_aadhaar\<close>:
  \<^verbatim>\<open>
  if record["total_students"] > 0:
      record["aadhaar_percentage"] = round(
          (record["aadhaar_authenticated"] / record["total_students"]) * 100, 1)
  else:
      record["aadhaar_percentage"] = 0.0
  \<close>
\<close>

definition parse_aadhaar_percentage :: "int \<Rightarrow> int \<Rightarrow> real" where
  "parse_aadhaar_percentage total_students aadhaar_authenticated =
     (if total_students > 0
      then py_round ((of_int aadhaar_authenticated / of_int total_students) * 100) 1
      else 0)"

text \<open>
  \<open>DatasetParser.parse_apaar\<close>:
  \<^verbatim>\<open>apaar_pct = round((apaar_done / total_students) * 100, 1) if total_students > 0 else 0.0\<close>
\<close>

definition parse_apaar_pct :: "int \<Rightarrow> int \<Rightarrow> real" where
  "parse_apaar_pct total_students apaar_done =
     (if total_students > 0
      then py_round ((of_int apaar_done / of_int total_students) * 100) 1
      else 0)"

text \<open>
  \<open>etl/etl_pipeline.py\<close>, \<open>ETLPipeline.etl_aadhaar\<close>:
  \<^verbatim>\<open>"exception_rate": round((aadhaar_not_provided / total_enrolment * 100)
                               if total_enrolment > 0 else 0, 2)\<close>
\<close>

definition etl_exception_rate :: "int \<Rightarrow> int \<Rightarrow> real" where
  "etl_exception_rate total_enrolment aadhaar_not_provided =
     py_round (if total_enrolment > 0
               then of_int aadhaar_not_provided / of_int total_enrolment * 100 else 0) 2"

text \<open>
  \<open>ETLPipeline.etl_apaar\<close>:
  \<^verbatim>\<open>
  generation_rate = (total_generated / total_students * 100) if total_students > 0 else 0
  ... "generation_rate": round(generation_rate, 2)
  \<close>
\<close>

definition etl_generation_rate :: "int \<Rightarrow> int \<Rightarrow> real" where
  "etl_generation_rate total_students total_generated =
     py_round (if total_students > 0
               then of_int total_generated / of_int total_students * 100 else 0) 2"

text \<open>
  \<open>ETLPipeline.etl_data_entry\<close>:
  \<^verbatim>\<open>"completion_rate": round((completed / total * 100) if total > 0 else 0, 2)\<close>
  where \<open>total\<close> is the row's coerced \<open>Total Students\<close>.
\<close>

definition etl_completion_rate :: "int \<Rightarrow> int \<Rightarrow> real" where
  "etl_completion_rate total_students completed =
     py_round (if total_students > 0 then of_int completed / of_int total_students * 100 else 0) 2"

text \<open>
  The rate formula in the words of the specification,
  \<open>round(numerator / max(denominator, 1) * 100, ndigits)\<close>, to compare the code with.
\<close>

definition spec_rate :: "int \<Rightarrow> int \<Rightarrow> nat \<Rightarrow> real" where
  "spec_rate numerator denominator ndigits =
     py_round (of_int numerator / of_int (max denominator 1) * 100) ndigits"

section \<open>Composite index and status band\<close>

text \<open>
  \<open>routers/executive.py\<close>, \<open>get_school_health_index\<close>:
  \<^verbatim>\<open>
  shi = round(identity_index * 0.25 + infra_index * 0.25
              + teacher_index * 0.25 + operational_index * 0.25, 1)
  def get_rag(value):
      if value >= 85:
          return {"status": "Green", "color": "#10b981"}
      elif value >= 70:
          return {"status": "Amber", "color": "#f59e0b"}
      else:
          return {"status": "Red", "color": "#ef4444"}
  \<close>
\<close>

definition school_health_index :: "real \<Rightarrow> real \<Rightarrow> real \<Rightarrow> real \<Rightarrow> real" where
  "school_health_index identity_index infra_index teacher_index operational_index =
     py_round (identity_index * (25 / 100) + infra_index * (25 / 100)
               + teacher_index * (25 / 100) + operational_index * (25 / 100)) 1"

record rag =
  status :: string
  color :: string

definition get_rag :: "real \<Rightarrow> rag" where
  "get_rag v =
     (if v \<ge> 85 then \<lparr>status = ''Green'', color = ''#10b981''\<rparr>
      else if v \<ge> 70 then \<lparr>status = ''Amber'', color = ''#f59e0b''\<rparr>
      else \<lparr>status = ''Red'', color = ''#ef4444''\<rparr>)"

text \<open>
  The block rows of the same function; each value is read with a default for a missing
  key:
  \<^verbatim>\<open>
  block_identity = identity_block.get("aadhaar_pct", 85)
  block_infra = block.get("classroom_health", 90)
  block_teacher = teacher_block.get("ctet_pct", 10) * 2  # Scale up
  block_ops = operational_block.get("completion_rate", 99)
  block_shi_value = round((block_identity * 0.25 + block_infra * 0.25
                           + block_teacher * 0.25 + block_ops * 0.25), 1)
  \<close>
\<close>

definition block_shi_value ::
  "real option \<Rightarrow> real option \<Rightarrow> real option \<Rightarrow> real option \<Rightarrow> real" where
  "block_shi_value aadhaar_pct classroom_health ctet_pct completion_rate =
     (let block_identity = (case aadhaar_pct of None \<Rightarrow> 85 | Some v \<Rightarrow> v);
          block_infra = (case classroom_health of None \<Rightarrow> 90 | Some v \<Rightarrow> v);
          block_teacher = (case ctet_pct of None \<Rightarrow> 10 | Some v \<Rightarrow> v) * 2;
          block_ops = (case completion_rate of None \<Rightarrow> 99 | Some v \<Rightarrow> v)
      in py_round (block_identity * (25 / 100) + block_infra * (25 / 100)
                   + block_teacher * (25 / 100) + block_ops * (25 / 100)) 1)"

text \<open>
  \<open>etl/etl_pipeline.py\<close>, \<open>create_districts_summary\<close> and \<open>create_blocks_summary\<close>
  (the same lines in both). Each \<open>$group\<close> stage returns at most one document; it is
  modelled by an optional pair of the two sums the percentage is taken from.
  \<^verbatim>\<open>
  aadhaar_pct = (aadhaar[0]["aadhaar_available"] / aadhaar[0]["total_enrolment"] * 100)
                if aadhaar and aadhaar[0]["total_enrolment"] > 0 else 0
  ...
  shi_score = round((aadhaar_pct * 0.3 + apaar_pct * 0.3 + teacher_quality * 0.4), 1)
  rag_status = "green" if shi_score >= 75 else "amber" if shi_score >= 50 else "red"
  \<close>
\<close>

definition group_pct :: "(int \<times> int) option \<Rightarrow> real" where
  "group_pct g =
     (case g of
        None \<Rightarrow> 0
      | Some (numerator, denominator) \<Rightarrow>
          if denominator > 0 then of_int numerator / of_int denominator * 100 else 0)"

definition shi_score :: "real \<Rightarrow> real \<Rightarrow> real \<Rightarrow> real" where
  "shi_score aadhaar_pct apaar_pct teacher_quality =
     py_round (aadhaar_pct * (3 / 10) + apaar_pct * (3 / 10) + teacher_quality * (4 / 10)) 1"

definition rag_status :: "real \<Rightarrow> string" where
  "rag_status score = (if score \<ge> 75 then ''green'' else if score \<ge> 50 then ''amber'' else ''red'')"

definition summary_shi ::
  "(int \<times> int) option \<Rightarrow> (int \<times> int) option \<Rightarrow> (int \<times> int) option \<Rightarrow> real \<times> string" where
  "summary_shi aadhaar apaar teacher =
     (let s = shi_score (group_pct aadhaar) (group_pct apaar) (group_pct teacher)
      in (s, rag_status s))"

section \<open>Cell values and the type-coercion layer\<close>

text \<open>
  A spreadsheet cell as pandas hands it to the coercion functions: \<open>None\<close>, a boolean,
  an integer, a float (finite, infinite or NaN) or a string. Strings are ASCII.
  The exceptions are the three that \<open>float\<close> and \<open>int\<close> raise on such values.
\<close>

datatype pyfloat = Fin real | PosInf | NegInf | NaN

datatype pyval = VNone | VBool bool | VInt int | VFloat pyfloat | VStr string

datatype exn = ValueError | TypeError | OverflowError

text \<open>\<open>pd.isna(val)\<close> on a scalar: true for \<open>None\<close> and for a float NaN.\<close>

fun isna :: "pyval \<Rightarrow> bool" where
  "isna VNone = True"
| "isna (VFloat NaN) = True"
| "isna _ = False"

subsection \<open>String methods\<close>

definition is_digit :: "char \<Rightarrow> bool" where
  "is_digit c = (c \<in> set ''0123456789'')"

definition digit_val :: "char \<Rightarrow> nat" where
  "digit_val c = of_char c - 48"

definition nat_of_digits :: "string \<Rightarrow> nat" where
  "nat_of_digits ds = foldl (\<lambda>a c. 10 * a + digit_val c) 0 ds"

definition is_space :: "char \<Rightarrow> bool" where
  "is_space c = (c \<in> set [CHR 0x09, CHR 0x0A, CHR 0x0B, CHR 0x0C, CHR 0x0D,
                           CHR 0x1C, CHR 0x1D, CHR 0x1E, CHR 0x1F, CHR 0x20])"

definition py_strip :: "string \<Rightarrow> string" where
  "py_strip s = rev (dropWhile is_space (rev (dropWhile is_space s)))"

definition lower_char :: "char \<Rightarrow> char" where
  "lower_char c =
     (case map_of (zip ''ABCDEFGHIJKLMNOPQRSTUVWXYZ'' ''abcdefghijklmnopqrstuvwxyz'') c of
        None \<Rightarrow> c
      | Some l \<Rightarrow> l)"

definition py_lower :: "string \<Rightarrow> string" where
  "py_lower s = map lower_char s"

definition startswith :: "string \<Rightarrow> string \<Rightarrow> bool" where
  "startswith s p = (take (length p) s = p)"

definition endswith :: "string \<Rightarrow> string \<Rightarrow> bool" where
  "endswith s p = (length p \<le> length s \<and> drop (length s - length p) s = p)"

text \<open>\<open>sub in s\<close> on strings.\<close>

fun str_contains :: "string \<Rightarrow> string \<Rightarrow> bool" where
  "str_contains [] sub = (sub = [])"
| "str_contains (c # cs) sub = (startswith (c # cs) sub \<or> str_contains cs sub)"

subsection \<open>The built-in conversions \<open>float\<close> and \<open>int\<close>\<close>

text \<open>
  \<open>float(s)\<close> on a string: surrounding whitespace is dropped; then an optional sign and
  either \<open>inf\<close>, \<open>infinity\<close>, \<open>nan\<close> (in any case) or a decimal number
  \<open>digits [. [digits]] [e [sign] digits]\<close> or \<open>. digits [e [sign] digits]\<close>, where digits
  may be grouped by single underscores. Anything else raises \<open>ValueError\<close>. The value
  is rounded to binary64; a number too large for a float becomes an infinity.
\<close>

fun more_digits :: "string \<Rightarrow> string \<times> string" where
  "more_digits [] = ([], [])"
| "more_digits [c] = (if is_digit c then ([c], []) else ([], [c]))"
| "more_digits (c # d # cs) =
     (if is_digit c then (case more_digits (d # cs) of (ds, r) \<Rightarrow> (c # ds, r))
      else if c = CHR ''_'' \<and> is_digit d then (case more_digits cs of (ds, r) \<Rightarrow> (d # ds, r))
      else ([], c # d # cs))"

definition digitpart :: "string \<Rightarrow> (string \<times> string) option" where
  "digitpart s =
     (case s of
        [] \<Rightarrow> None
      | c # cs \<Rightarrow>
          if is_digit c then (case more_digits cs of (ds, r) \<Rightarrow> Some (c # ds, r)) else None)"

definition pow10 :: "int \<Rightarrow> real" where
  "pow10 k = (if 0 \<le> k then 10 ^ nat k else 1 / 10 ^ nat (- k))"

definition decimal_value :: "string \<Rightarrow> string \<Rightarrow> int \<Rightarrow> real" where
  "decimal_value ip fp e = of_nat (nat_of_digits (ip @ fp)) * pow10 (e - int (length fp))"

definition parse_exponent :: "string \<Rightarrow> int option" where
  "parse_exponent s =
     (case s of
        [] \<Rightarrow> None
      | c # cs \<Rightarrow>
          (case digitpart (if c = CHR ''-'' \<or> c = CHR ''+'' then cs else c # cs) of
             Some (ds, []) \<Rightarrow>
               Some (if c = CHR ''-'' then - int (nat_of_digits ds) else int (nat_of_digits ds))
           | _ \<Rightarrow> None))"

definition parse_tail :: "string \<Rightarrow> string \<Rightarrow> string \<Rightarrow> real option" where
  "parse_tail ip fp r =
     (case r of
        [] \<Rightarrow> Some (decimal_value ip fp 0)
      | c # cs \<Rightarrow>
          if c = CHR ''e'' \<or> c = CHR ''E''
          then map_option (decimal_value ip fp) (parse_exponent cs) else None)"

definition parse_number :: "string \<Rightarrow> real option" where
  "parse_number s =
     (case digitpart s of
        Some (ip, r1) \<Rightarrow>
          (case r1 of
             [] \<Rightarrow> parse_tail ip [] []
           | c # r2 \<Rightarrow>
               if c = CHR ''.''
               then (case digitpart r2 of
                       Some (fp, r3) \<Rightarrow> parse_tail ip fp r3
                     | None \<Rightarrow> parse_tail ip [] r2)
               else parse_tail ip [] r1)
      | None \<Rightarrow>
          (case s of
             [] \<Rightarrow> None
           | c # r2 \<Rightarrow>
               if c = CHR ''.''
               then (case digitpart r2 of
                       Some (fp, r3) \<Rightarrow> parse_tail [] fp r3
                     | None \<Rightarrow> None)
               else None))"

text \<open>
  Rounding of a real to the nearest binary64 value, ties to even, as \<open>float\<close> does for a
  decimal string and for an integer. \<open>binary_exponent a\<close> is the \<open>e\<close> with
  \<open>2^e \<le> a < 2^(e+1)\<close> for positive \<open>a\<close>; the spacing of the floats around \<open>a\<close> is
  \<open>2^(e-52)\<close>, and \<open>2^(-1074)\<close> below \<open>2^(-1022)\<close>. A magnitude that rounds to \<open>2^1024\<close>
  or more is an overflow. The sign of a zero is not modelled.
\<close>

fun bit_length :: "nat \<Rightarrow> nat" where
  "bit_length n = (if n = 0 then 0 else Suc (bit_length (n div 2)))"

definition pow2 :: "int \<Rightarrow> real" where
  "pow2 k = (if 0 \<le> k then 2 ^ nat k else 1 / 2 ^ nat (- k))"

definition binary_exponent :: "real \<Rightarrow> int" where
  "binary_exponent a =
     (if 1 \<le> a then int (bit_length (nat \<lfloor>a\<rfloor>)) - 1
      else - int (bit_length (nat (\<lceil>1 / a\<rceil> - 1))))"

definition round_binary64 :: "real \<Rightarrow> real" where
  "round_binary64 q =
     (if q = 0 then 0
      else let a = \<bar>q\<bar>;
               u = pow2 (max (binary_exponent a) (- 1022) - 52);
               m = of_int (round_half_even (a / u)) * u
           in if q < 0 then - m else m)"

definition to_float :: "real \<Rightarrow> pyfloat" where
  "to_float q =
     (let r = round_binary64 q
      in if 2 ^ 1024 \<le> r then PosInf else if r \<le> - (2 ^ 1024) then NegInf else Fin r)"

text \<open>
  The whitespace that \<open>float\<close> drops around an ASCII string: tab, line feed, vertical
  tab, form feed, carriage return and space (not the separators \<open>0x1C\<close> to \<open>0x1F\<close>, which
  \<open>str.strip\<close> drops).
\<close>

definition is_c_space :: "char \<Rightarrow> bool" where
  "is_c_space c = (c \<in> set [CHR 0x09, CHR 0x0A, CHR 0x0B, CHR 0x0C, CHR 0x0D, CHR 0x20])"

definition float_strip :: "string \<Rightarrow> string" where
  "float_strip s = rev (dropWhile is_c_space (rev (dropWhile is_c_space s)))"

definition float_of_str :: "string \<Rightarrow> exn + pyfloat" where
  "float_of_str s =
     (let t = float_strip s;
          neg = (t \<noteq> [] \<and> hd t = CHR ''-'');
          body = (if t \<noteq> [] \<and> (hd t = CHR ''-'' \<or> hd t = CHR ''+'') then tl t else t);
          low = py_lower body
      in if low = ''inf'' \<or> low = ''infinity'' then Inr (if neg then NegInf else PosInf)
         else if low = ''nan'' then Inr NaN
         else (case parse_number body of
                 None \<Rightarrow> Inl ValueError
               | Some q \<Rightarrow> Inr (to_float (if neg then - q else q))))"

text \<open>
  \<open>float(val)\<close>. An integer of magnitude up to \<open>2^53\<close> is a float; a larger one is
  rounded, and raises \<open>OverflowError\<close> when it is too large for a float.
\<close>

fun py_float :: "pyval \<Rightarrow> exn + pyfloat" where
  "py_float VNone = Inl TypeError"
| "py_float (VBool b) = Inr (Fin (if b then 1 else 0))"
| "py_float (VInt i) =
     (if \<bar>i\<bar> \<le> 2 ^ 53 then Inr (Fin (of_int i))
      else (case to_float (of_int i) of Fin x \<Rightarrow> Inr (Fin x) | _ \<Rightarrow> Inl OverflowError))"
| "py_float (VFloat f) = Inr f"
| "py_float (VStr s) = float_of_str s"

text \<open>
  \<open>int(f)\<close> on a float truncates towards zero; it raises \<open>OverflowError\<close> on an
  infinity and \<open>ValueError\<close> on NaN.
\<close>

fun py_int :: "pyfloat \<Rightarrow> exn + int" where
  "py_int (Fin q) = Inr (if 0 \<le> q then \<lfloor>q\<rfloor> else \<lceil>q\<rceil>)"
| "py_int PosInf = Inl OverflowError"
| "py_int NegInf = Inl OverflowError"
| "py_int NaN = Inl ValueError"

definition int_float :: "pyval \<Rightarrow> exn + int" where
  "int_float val = (case py_float val of Inl e \<Rightarrow> Inl e | Inr f \<Rightarrow> py_int f)"

subsection \<open>\<open>etl/etl_pipeline.py\<close>: \<open>safe_int\<close>, \<open>safe_float\<close>, \<open>safe_str\<close>\<close>

text \<open>
  \<^verbatim>\<open>
  def safe_int(val):
      try:
          if pd.isna(val):
              return 0
          if isinstance(val, str):
              if val.startswith("1-") or val.lower() == "yes":
                  return 1
              if val.startswith("2-") or val.lower() == "no":
                  return 0
              if val.startswith("(") and val.endswith(")"):
                  return 0
              match = re.match(r'^(\d+)', val)
              if match:
                  return int(match.group(1))
          return int(float(val))
      except:
          return 0
  \<close>
  The body of the \<open>try\<close> is \<open>etl_safe_int_try\<close>; the bare \<open>except\<close> turns every exception
  into 0.
\<close>

definition etl_safe_int_try :: "pyval \<Rightarrow> exn + int" where
  "etl_safe_int_try val =
     (if isna val then Inr 0
      else case val of
        VStr s \<Rightarrow>
          if startswith s ''1-'' \<or> py_lower s = ''yes'' then Inr 1
          else if startswith s ''2-'' \<or> py_lower s = ''no'' then Inr 0
          else if startswith s ''('' \<and> endswith s '')'' then Inr 0
          else if takeWhile is_digit s \<noteq> [] then Inr (int (nat_of_digits (takeWhile is_digit s)))
          else int_float val
      | _ \<Rightarrow> int_float val)"

definition etl_safe_int :: "pyval \<Rightarrow> int" where
  "etl_safe_int val = (case etl_safe_int_try val of Inl e \<Rightarrow> 0 | Inr n \<Rightarrow> n)"

text \<open>
  \<^verbatim>\<open>
  def safe_float(val):
      try:
          if pd.isna(val):
              return 0.0
          return float(val)
      except:
          return 0.0
  \<close>
\<close>

definition etl_safe_float :: "pyval \<Rightarrow> pyfloat" where
  "etl_safe_float val =
     (case (if isna val then Inr (Fin 0) else py_float val) of Inl e \<Rightarrow> Fin 0 | Inr f \<Rightarrow> f)"

text \<open>
  \<^verbatim>\<open>
  def safe_str(val):
      if pd.isna(val):
          return ""
      return str(val).strip()
  \<close>
  The same text stands in both modules. \<open>str\<close> of a cell that is not a string is a
  parameter (\<open>py_str\<close>): the shortest-repr printing of floats is not modelled.
\<close>

definition safe_str :: "(pyval \<Rightarrow> string) \<Rightarrow> pyval \<Rightarrow> string" where
  "safe_str py_str val =
     (if isna val then [] else py_strip (case val of VStr s \<Rightarrow> s | _ \<Rightarrow> py_str val))"

subsection \<open>\<open>data_import/parser.py\<close>: \<open>safe_int\<close>, \<open>safe_float\<close>\<close>

text \<open>
  \<^verbatim>\<open>
  def safe_int(val) -> int:
      """Safely convert to integer"""
      try:
          if pd.isna(val):
              return 0
          return int(float(val))
      except (ValueError, TypeError):
          return 0

  def safe_float(val) -> float:
      """Safely convert to float"""
      try:
          if pd.isna(val):
              return 0.0
          return float(val)
      except (ValueError, TypeError):
          return 0.0
  \<close>
  Only \<open>ValueError\<close> and \<open>TypeError\<close> are caught; any other exception leaves the function.
\<close>

definition parser_safe_int :: "pyval \<Rightarrow> exn + int" where
  "parser_safe_int val =
     (case (if isna val then Inr 0 else int_float val) of
        Inl ValueError \<Rightarrow> Inr 0
      | Inl TypeError \<Rightarrow> Inr 0
      | Inl OverflowError \<Rightarrow> Inl OverflowError
      | Inr n \<Rightarrow> Inr n)"

definition parser_safe_float :: "pyval \<Rightarrow> exn + pyfloat" where
  "parser_safe_float val =
     (case (if isna val then Inr (Fin 0) else py_float val) of
        Inl ValueError \<Rightarrow> Inr (Fin 0)
      | Inl TypeError \<Rightarrow> Inr (Fin 0)
      | Inl OverflowError \<Rightarrow> Inl OverflowError
      | Inr f \<Rightarrow> Inr f)"

section \<open>Placeholder row filter\<close>

text \<open>
  \<open>etl/etl_pipeline.py\<close>; a row is the list of its cell values, a data frame the list of
  its rows.
  \<^verbatim>\<open>
  def is_placeholder_row(row):
      """Check if a row contains placeholder values like (1), (2), etc."""
      for val in row.values[:5]:
          if isinstance(val, str) and val.startswith("(") and val.endswith(")"):
              return True
      return False

  def read_excel_skip_placeholders(file_path):
      df = pd.read_excel(file_path)
      df = df[~df.apply(is_placeholder_row, axis=1)]
      return df
  \<close>
\<close>

definition is_placeholder_cell :: "pyval \<Rightarrow> bool" where
  "is_placeholder_cell val =
     (case val of VStr s \<Rightarrow> startswith s ''('' \<and> endswith s '')'' | _ \<Rightarrow> False)"

fun placeholder_loop :: "pyval list \<Rightarrow> bool" where
  "placeholder_loop [] = False"
| "placeholder_loop (val # vals) = (if is_placeholder_cell val then True else placeholder_loop vals)"

definition is_placeholder_row :: "pyval list \<Rightarrow> bool" where
  "is_placeholder_row row = placeholder_loop (take 5 row)"

definition read_excel_skip_placeholders :: "pyval list list \<Rightarrow> pyval list list" where
  "read_excel_skip_placeholders df = filter (\<lambda>row. \<not> is_placeholder_row row) df"

text \<open>
  The pattern in the words of the specification: the string is an opening parenthesis,
  one or more digits and a closing parenthesis, and a row is a placeholder when one of
  its first 5 cells is such a string.
\<close>

definition spec_paren_digits :: "string \<Rightarrow> bool" where
  "spec_paren_digits s =
     (3 \<le> length s \<and> hd s = CHR ''('' \<and> last s = CHR '')'' \<and> list_all is_digit (butlast (tl s)))"

definition spec_placeholder_row :: "pyval list \<Rightarrow> bool" where
  "spec_placeholder_row row =
     list_ex (\<lambda>val. case val of VStr s \<Rightarrow> spec_paren_digits s | _ \<Rightarrow> False) (take 5 row)"

section \<open>Enrolment normalization\<close>

text \<open>
  \<open>ETLPipeline.etl_enrolment\<close>. \<open>df.columns\<close> is the list of column names (strings), a
  row maps column names to cells, and \<open>row.get(col)\<close> is \<open>None\<close> for a missing column.
  \<^verbatim>\<open>
  for _, row in df.iterrows():
      boys_total = 0
      girls_total = 0
      trans_total = 0
      for col in df.columns:
          if "(Boys)" in col:
              boys_total += safe_int(row.get(col))
          elif "(Girls)" in col:
              girls_total += safe_int(row.get(col))
          elif "(Trans)" in col:
              trans_total += safe_int(row.get(col))
      total = boys_total + girls_total + trans_total
      records.append({ ...
          "boys_enrolment": boys_total,
          "girls_enrolment": girls_total,
          "trans_enrolment": trans_total,
          "total_enrolment": total, ... })
  \<close>
  The other fields of the record (names, codes and the per-class counts) are each one
  coerced cell and are left out.
\<close>

definition row_get :: "(string \<rightharpoonup> pyval) \<Rightarrow> string \<Rightarrow> pyval" where
  "row_get row col = (case row col of None \<Rightarrow> VNone | Some v \<Rightarrow> v)"

fun enrolment_loop ::
  "(string \<rightharpoonup> pyval) \<Rightarrow> string list \<Rightarrow> int \<times> int \<times> int \<Rightarrow> int \<times> int \<times> int" where
  "enrolment_loop row [] acc = acc"
| "enrolment_loop row (col # cols) (boys_total, girls_total, trans_total) =
     (if str_contains col ''(Boys)''
      then enrolment_loop row cols (boys_total + etl_safe_int (row_get row col), girls_total, trans_total)
      else if str_contains col ''(Girls)''
      then enrolment_loop row cols (boys_total, girls_total + etl_safe_int (row_get row col), trans_total)
      else if str_contains col ''(Trans)''
      then enrolment_loop row cols (boys_total, girls_total, trans_total + etl_safe_int (row_get row col))
      else enrolment_loop row cols (boys_total, girls_total, trans_total))"

record enrolment_record =
  boys_enrolment :: int
  girls_enrolment :: int
  trans_enrolment :: int
  total_enrolment :: int

definition etl_enrolment_row :: "string list \<Rightarrow> (string \<rightharpoonup> pyval) \<Rightarrow> enrolment_record" where
  "etl_enrolment_row columns row =
     (case enrolment_loop row columns (0, 0, 0) of
        (boys_total, girls_total, trans_total) \<Rightarrow>
          \<lparr>boys_enrolment = boys_total, girls_enrolment = girls_total,
           trans_enrolment = trans_total,
           total_enrolment = boys_total + girls_total + trans_total\<rparr>)"

definition etl_enrolment :: "string list \<Rightarrow> (string \<rightharpoonup> pyval) list \<Rightarrow> enrolment_record list" where
  "etl_enrolment columns df = map (etl_enrolment_row columns) df"

text \<open>The sum of the coerced cells of the columns that satisfy \<open>P\<close>.\<close>

definition column_sum :: "(string \<Rightarrow> bool) \<Rightarrow> string list \<Rightarrow> (string \<rightharpoonup> pyval) \<Rightarrow> int" where
  "column_sum P columns row = (\<Sum>col\<leftarrow>filter P columns. etl_safe_int (row_get row col))"

section \<open>Hierarchical aggregation\<close>

text \<open>
  \<open>data_import/parser.py\<close>. A value of \<open>self.schools_data\<close> is a dictionary that the
  parsers of the ten datasets fill key by key; an absent key is \<open>None\<close>. Only the keys
  that \<open>get_aggregated_data\<close> reads, and \<open>total_students_aadhaar\<close>, are kept.
\<close>

record school =
  s_district_name :: "string option"
  s_block_name :: "string option"
  s_total_students :: "int option"
  s_total_students_aadhaar :: "int option"
  s_total_teachers :: "int option"
  s_aadhaar_percentage :: "real option"
  s_apaar_percentage :: "real option"
  s_water_available :: "bool option"
  s_toilets_available :: "bool option"
  s_certified :: "bool option"

definition empty_school :: school where
  "empty_school =
     \<lparr>s_district_name = None, s_block_name = None, s_total_students = None,
      s_total_students_aadhaar = None, s_total_teachers = None, s_aadhaar_percentage = None,
      s_apaar_percentage = None, s_water_available = None, s_toilets_available = None,
      s_certified = None\<rparr>"

text \<open>
  \<open>parse_aadhaar\<close>, after the record and its percentage are computed:
  \<^verbatim>\<open>
  self.schools_data[udise].update({
      "udise_code": udise,
      "school_name": record["school_name"],
      "district_name": record["district_name"],
      "block_name": record["block_name"],
      "aadhaar_percentage": record["aadhaar_percentage"],
      "total_students_aadhaar": record["total_students"]
  })
  \<close>
  and \<open>parse_enrolment\<close>:
  \<^verbatim>\<open>
  self.schools_data[udise].update({
      "total_students": total_students, "boys": boys, "girls": girls })
  \<close>
\<close>

definition parse_aadhaar_update :: "string \<Rightarrow> string \<Rightarrow> int \<Rightarrow> int \<Rightarrow> school \<Rightarrow> school" where
  "parse_aadhaar_update district_name block_name total_students aadhaar_authenticated sch =
     sch\<lparr>s_district_name := Some district_name,
         s_block_name := Some block_name,
         s_aadhaar_percentage :=
           Some (parse_aadhaar_percentage total_students aadhaar_authenticated),
         s_total_students_aadhaar := Some total_students\<rparr>"

definition parse_enrolment_update :: "int \<Rightarrow> school \<Rightarrow> school" where
  "parse_enrolment_update total_students sch = sch\<lparr>s_total_students := Some total_students\<rparr>"

text \<open>
  The aggregates. The sums and counts are set when the entry is created; the
  percentages are keys added by the final pass, \<open>None\<close> until then.
\<close>

record district =
  d_district_name :: string
  d_total_schools :: int
  d_total_students :: int
  d_total_teachers :: int
  d_aadhaar_sum :: real
  d_apaar_sum :: real
  d_water_count :: int
  d_toilet_count :: int
  d_certified_count :: int
  d_schools_with_data :: int
  d_aadhaar_percentage :: "real option"
  d_apaar_percentage :: "real option"
  d_water_percentage :: "real option"
  d_toilet_percentage :: "real option"
  d_data_entry_percentage :: "real option"
  d_avg_ptr :: "real option"

record block =
  b_district_name :: string
  b_block_name :: string
  b_total_schools :: int
  b_total_students :: int
  b_aadhaar_sum :: real
  b_apaar_sum :: real
  b_schools_with_data :: int
  b_aadhaar_percentage :: "real option"
  b_apaar_percentage :: "real option"

text \<open>
  \<^verbatim>\<open>
  for udise, school in self.schools_data.items():
      district_name = school.get("district_name", "Unknown")
      block_name = school.get("block_name", "Unknown")
      # Skip if no district info
      if not district_name or district_name == "Unknown":
          continue
      if district_name not in districts:
          districts[district_name] = { "district_name": district_name,
              "total_schools": 0, "total_students": 0, "total_teachers": 0,
              "aadhaar_sum": 0, "apaar_sum": 0, "water_count": 0, "toilet_count": 0,
              "certified_count": 0, "schools_with_data": 0 }
      block_key = f"{district_name}|{block_name}"
      if block_key not in blocks:
          blocks[block_key] = { "district_name": district_name, "block_name": block_name,
              "total_schools": 0, "total_students": 0, "aadhaar_sum": 0, "apaar_sum": 0,
              "schools_with_data": 0 }
      districts[district_name]["total_schools"] += 1
      districts[district_name]["total_students"] += school.get("total_students", 0)
      districts[district_name]["total_teachers"] += school.get("total_teachers", 0)
      if school.get("aadhaar_percentage"):
          districts[district_name]["aadhaar_sum"] += school["aadhaar_percentage"]
          districts[district_name]["schools_with_data"] += 1
      if school.get("apaar_percentage"):
          districts[district_name]["apaar_sum"] += school["apaar_percentage"]
      if school.get("water_available"):
          districts[district_name]["water_count"] += 1
      if school.get("toilets_available"):
          districts[district_name]["toilet_count"] += 1
      if school.get("certified"):
          districts[district_name]["certified_count"] += 1
      blocks[block_key]["total_schools"] += 1
      blocks[block_key]["total_students"] += school.get("total_students", 0)
      if school.get("aadhaar_percentage"):
          blocks[block_key]["aadhaar_sum"] += school["aadhaar_percentage"]
          blocks[block_key]["schools_with_data"] += 1
      if school.get("apaar_percentage"):
          blocks[block_key]["apaar_sum"] += school["apaar_percentage"]
  \<close>
  A dictionary is an association list in insertion order. \<open>if k not in d: d[k] = v\<close>
  is \<open>dict_init\<close>; the updates of the fields of \<open>d[k]\<close> are one \<open>AList.map_entry\<close>.
\<close>

definition school_district :: "school \<Rightarrow> string" where
  "school_district sch = (case s_district_name sch of None \<Rightarrow> ''Unknown'' | Some d \<Rightarrow> d)"

definition school_block :: "school \<Rightarrow> string" where
  "school_block sch = (case s_block_name sch of None \<Rightarrow> ''Unknown'' | Some b \<Rightarrow> b)"

definition skipped :: "school \<Rightarrow> bool" where
  "skipped sch = (school_district sch = [] \<or> school_district sch = ''Unknown'')"

definition block_key :: "string \<Rightarrow> string \<Rightarrow> string" where
  "block_key district_name block_name = district_name @ ''|'' @ block_name"

definition school_block_key :: "school \<Rightarrow> string" where
  "school_block_key sch = block_key (school_district sch) (school_block sch)"

text \<open>Truth value of \<open>school.get(key)\<close> for a float and for a boolean key.\<close>

definition truthy_real :: "real option \<Rightarrow> bool" where
  "truthy_real x = (case x of None \<Rightarrow> False | Some p \<Rightarrow> p \<noteq> 0)"

definition truthy_bool :: "bool option \<Rightarrow> bool" where
  "truthy_bool x = (case x of None \<Rightarrow> False | Some b \<Rightarrow> b)"

definition get_int :: "int option \<Rightarrow> int" where
  "get_int x = (case x of None \<Rightarrow> 0 | Some n \<Rightarrow> n)"

definition get_real :: "real option \<Rightarrow> real" where
  "get_real x = (case x of None \<Rightarrow> 0 | Some p \<Rightarrow> p)"

definition dict_init :: "'k \<Rightarrow> 'v \<Rightarrow> ('k \<times> 'v) list \<Rightarrow> ('k \<times> 'v) list" where
  "dict_init k v d = (if map_of d k = None then d @ [(k, v)] else d)"

definition new_district :: "string \<Rightarrow> district" where
  "new_district district_name =
     \<lparr>d_district_name = district_name, d_total_schools = 0, d_total_students = 0,
      d_total_teachers = 0, d_aadhaar_sum = 0, d_apaar_sum = 0, d_water_count = 0,
      d_toilet_count = 0, d_certified_count = 0, d_schools_with_data = 0,
      d_aadhaar_percentage = None, d_apaar_percentage = None, d_water_percentage = None,
      d_toilet_percentage = None, d_data_entry_percentage = None, d_avg_ptr = None\<rparr>"

definition new_block :: "string \<Rightarrow> string \<Rightarrow> block" where
  "new_block district_name block_name =
     \<lparr>b_district_name = district_name, b_block_name = block_name, b_total_schools = 0,
      b_total_students = 0, b_aadhaar_sum = 0, b_apaar_sum = 0, b_schools_with_data = 0,
      b_aadhaar_percentage = None, b_apaar_percentage = None\<rparr>"

definition add_to_district :: "school \<Rightarrow> district \<Rightarrow> district" where
  "add_to_district sch d =
     d\<lparr>d_total_schools := d_total_schools d + 1,
       d_total_students := d_total_students d + get_int (s_total_students sch),
       d_total_teachers := d_total_teachers d + get_int (s_total_teachers sch),
       d_aadhaar_sum :=
         (if truthy_real (s_aadhaar_percentage sch)
          then d_aadhaar_sum d + get_real (s_aadhaar_percentage sch) else d_aadhaar_sum d),
       d_schools_with_data :=
         (if truthy_real (s_aadhaar_percentage sch)
          then d_schools_with_data d + 1 else d_schools_with_data d),
       d_apaar_sum :=
         (if truthy_real (s_apaar_percentage sch)
          then d_apaar_sum d + get_real (s_apaar_percentage sch) else d_apaar_sum d),
       d_water_count :=
         (if truthy_bool (s_water_available sch) then d_water_count d + 1 else d_water_count d),
       d_toilet_count :=
         (if truthy_bool (s_toilets_available sch)
          then d_toilet_count d + 1 else d_toilet_count d),
       d_certified_count :=
         (if truthy_bool (s_certified sch)
          then d_certified_count d + 1 else d_certified_count d)\<rparr>"

definition add_to_block :: "school \<Rightarrow> block \<Rightarrow> block" where
  "add_to_block sch b =
     b\<lparr>b_total_schools := b_total_schools b + 1,
       b_total_students := b_total_students b + get_int (s_total_students sch),
       b_aadhaar_sum :=
         (if truthy_real (s_aadhaar_percentage sch)
          then b_aadhaar_sum b + get_real (s_aadhaar_percentage sch) else b_aadhaar_sum b),
       b_schools_with_data :=
         (if truthy_real (s_aadhaar_percentage sch)
          then b_schools_with_data b + 1 else b_schools_with_data b),
       b_apaar_sum :=
         (if truthy_real (s_apaar_percentage sch)
          then b_apaar_sum b + get_real (s_apaar_percentage sch) else b_apaar_sum b)\<rparr>"

definition aggregate_school ::
  "school \<Rightarrow> (string \<times> district) list \<times> (string \<times> block) list
     \<Rightarrow> (string \<times> district) list \<times> (string \<times> block) list" where
  "aggregate_school sch st =
     (case st of (districts, blocks) \<Rightarrow>
        if skipped sch then (districts, blocks)
        else
          (AList.map_entry (school_district sch) (add_to_district sch)
             (dict_init (school_district sch) (new_district (school_district sch)) districts),
           AList.map_entry (school_block_key sch) (add_to_block sch)
             (dict_init (school_block_key sch)
                (new_block (school_district sch) (school_block sch)) blocks)))"

text \<open>
  \<^verbatim>\<open>
  for d in districts.values():
      if d["schools_with_data"] > 0:
          d["aadhaar_percentage"] = round(d["aadhaar_sum"] / d["schools_with_data"], 1)
          d["apaar_percentage"] = round(d["apaar_sum"] / d["schools_with_data"], 1)
      else:
          d["aadhaar_percentage"] = 0.0
          d["apaar_percentage"] = 0.0
      if d["total_schools"] > 0:
          d["water_percentage"] = round((d["water_count"] / d["total_schools"]) * 100, 1)
          d["toilet_percentage"] = round((d["toilet_count"] / d["total_schools"]) * 100, 1)
          d["data_entry_percentage"] = round((d["certified_count"] / d["total_schools"]) * 100, 1)
      else:
          d["water_percentage"] = 0.0
          d["toilet_percentage"] = 0.0
          d["data_entry_percentage"] = 0.0
      if d["total_teachers"] > 0:
          d["avg_ptr"] = round(d["total_students"] / d["total_teachers"], 1)
      else:
          d["avg_ptr"] = 0.0
  for b in blocks.values():
      if b["schools_with_data"] > 0:
          b["aadhaar_percentage"] = round(b["aadhaar_sum"] / b["schools_with_data"], 1)
          b["apaar_percentage"] = round(b["apaar_sum"] / b["schools_with_data"], 1)
      else:
          b["aadhaar_percentage"] = 0.0
          b["apaar_percentage"] = 0.0
  return { "schools": list(self.schools_data.values()),
           "districts": list(districts.values()),
           "blocks": list(blocks.values()) }
  \<close>
\<close>

definition finish_district :: "district \<Rightarrow> district" where
  "finish_district d =
     d\<lparr>d_aadhaar_percentage :=
         Some (if d_schools_with_data d > 0
               then py_round (d_aadhaar_sum d / of_int (d_schools_with_data d)) 1 else 0),
       d_apaar_percentage :=
         Some (if d_schools_with_data d > 0
               then py_round (d_apaar_sum d / of_int (d_schools_with_data d)) 1 else 0),
       d_water_percentage :=
         Some (if d_total_schools d > 0
               then py_round ((of_int (d_water_count d) / of_int (d_total_schools d)) * 100) 1
               else 0),
       d_toilet_percentage :=
         Some (if d_total_schools d > 0
               then py_round ((of_int (d_toilet_count d) / of_int (d_total_schools d)) * 100) 1
               else 0),
       d_data_entry_percentage :=
         Some (if d_total_schools d > 0
               then py_round ((of_int (d_certified_count d) / of_int (d_total_schools d)) * 100) 1
               else 0),
       d_avg_ptr :=
         Some (if d_total_teachers d > 0
               then py_round (of_int (d_total_students d) / of_int (d_total_teachers d)) 1
               else 0)\<rparr>"

definition finish_block :: "block \<Rightarrow> block" where
  "finish_block b =
     b\<lparr>b_aadhaar_percentage :=
         Some (if b_schools_with_data b > 0
               then py_round (b_aadhaar_sum b / of_int (b_schools_with_data b)) 1 else 0),
       b_apaar_percentage :=
         Some (if b_schools_with_data b > 0
               then py_round (b_apaar_sum b / of_int (b_schools_with_data b)) 1 else 0)\<rparr>"

record aggregated =
  schools :: "school list"
  districts :: "district list"
  blocks :: "block list"

definition get_aggregated_data :: "(string \<times> school) list \<Rightarrow> aggregated" where
  "get_aggregated_data schools_data =
     (case fold aggregate_school (map snd schools_data) ([], []) of
        (ds, bs) \<Rightarrow>
          \<lparr>schools = map snd schools_data,
           districts = map (\<lambda>(k, d). finish_district d) ds,
           blocks = map (\<lambda>(k, b). finish_block b) bs\<rparr>)"

text \<open>
  The scenario of the specification: three schools of one district and block whose
  records hold \<open>total_students = [100, 50, 0]\<close> and an Aadhaar percentage computed by
  \<open>parse_aadhaar\<close> from \<open>[90, 50, 0]\<close> authenticated students.
\<close>

definition three_schools :: "string \<Rightarrow> string \<Rightarrow> (string \<times> school) list" where
  "three_schools district_name block_name =
     [(''UDISE001'', parse_enrolment_update 100
         (parse_aadhaar_update district_name block_name 100 90 empty_school)),
      (''UDISE002'', parse_enrolment_update 50
         (parse_aadhaar_update district_name block_name 50 50 empty_school)),
      (''UDISE003'', parse_enrolment_update 0
         (parse_aadhaar_update district_name block_name 0 0 empty_school))]"

text \<open>The same three schools when only the Aadhaar dataset has been parsed.\<close>

definition three_schools_aadhaar_only :: "string \<Rightarrow> string \<Rightarrow> (string \<times> school) list" where
  "three_schools_aadhaar_only district_name block_name =
     [(''UDISE001'', parse_aadhaar_update district_name block_name 100 90 empty_school),
      (''UDISE002'', parse_aadhaar_update district_name block_name 50 50 empty_school),
      (''UDISE003'', parse_aadhaar_update district_name block_name 0 0 empty_school)]"

text \<open>
  Two schools whose district and block names differ but give the same \<open>block_key\<close>:
  district \<open>A|B\<close> with block \<open>C\<close>, and district \<open>A\<close> with block \<open>B|C\<close>.
\<close>

definition colliding_schools :: "(string \<times> school) list" where
  "colliding_schools =
     [(''UDISE001'', empty_school\<lparr>s_district_name := Some ''A|B'', s_block_name := Some ''C''\<rparr>),
      (''UDISE002'', empty_school\<lparr>s_district_name := Some ''A'', s_block_name := Some ''B|C''\<rparr>)]"

text \<open>
  Two schools of 100 pupils each in one block: none authenticated in the first, all in
  the second.
\<close>

definition zero_percent_schools :: "(string \<times> school) list" where
  "zero_percent_schools =
     [(''UDISE001'', parse_enrolment_update 100
         (parse_aadhaar_update ''Pune'' ''Haveli'' 100 0 empty_school)),
      (''UDISE002'', parse_enrolment_update 100
         (parse_aadhaar_update ''Pune'' ''Haveli'' 100 100 empty_school))]"

section \<open>The aggregation and the composite index of \<open>server.py\<close>\<close>

text \<open>
  \<open>get_blocks_from_db\<close> (and, with the same lines, \<open>get_districts_from_db\<close>) groups the
  school documents by district and block and takes the mean over all schools of the
  group:
  \<^verbatim>\<open>
  "total_schools": {"$sum": 1},
  "aadhaar_sum": {"$sum": "$aadhaar_percentage"},
  ...
  total_schools = doc["total_schools"]
  aadhaar_pct = round(doc["aadhaar_sum"] / total_schools, 1) if total_schools > 0 else 0.0
  \<close>
  \<open>$sum\<close> counts a missing field as 0. The argument is the list of schools of one group.
\<close>

definition server_block_aadhaar_pct :: "school list \<Rightarrow> real" where
  "server_block_aadhaar_pct grp =
     (if int (length grp) > 0
      then py_round ((\<Sum>sch\<leftarrow>grp. get_real (s_aadhaar_percentage sch)) / of_int (int (length grp))) 1
      else 0)"

text \<open>
  \<^verbatim>\<open>
  def calculate_shi(school_data: dict) -> float:
      """Calculate School Health Index (0-100)"""
      aadhaar_pct = school_data.get("aadhaar_percentage", 0)
      apaar_pct = school_data.get("apaar_percentage", 0)
      identity_score = (aadhaar_pct * 0.5 + apaar_pct * 0.3 + 100 * 0.2)
      water = 100 if school_data.get("water_available", True) else 0
      toilet = 100 if school_data.get("toilets_available", True) else 0
      classroom_ratio = school_data.get("students_per_classroom", 40)
      classroom_score = min(100, (40 / max(classroom_ratio, 1)) * 100)
      infra_score = (water * 0.4 + toilet * 0.3 + classroom_score * 0.3)
      ptr = school_data.get("ptr", 30)
      teacher_score = min(100, (30 / max(ptr, 1)) * 100)
      data_entry = 100 if school_data.get("certified", False) else 50
      operational_score = data_entry
      age_integrity = 90
      shi = (identity_score * 0.25 + infra_score * 0.25 + teacher_score * 0.20 +
             operational_score * 0.20 + age_integrity * 0.10)
      return round(min(100, max(0, shi)), 1)
  \<close>
  The dictionary is a record of optional keys.
\<close>

record shi_data =
  shi_aadhaar_percentage :: "real option"
  shi_apaar_percentage :: "real option"
  shi_water_available :: "bool option"
  shi_toilets_available :: "bool option"
  shi_students_per_classroom :: "real option"
  shi_ptr :: "real option"
  shi_certified :: "bool option"

definition calculate_shi :: "shi_data \<Rightarrow> real" where
  "calculate_shi school_data =
     (let aadhaar_pct = (case shi_aadhaar_percentage school_data of None \<Rightarrow> 0 | Some v \<Rightarrow> v);
          apaar_pct = (case shi_apaar_percentage school_data of None \<Rightarrow> 0 | Some v \<Rightarrow> v);
          identity_score = aadhaar_pct * (5 / 10) + apaar_pct * (3 / 10) + 100 * (2 / 10);
          water = (if (case shi_water_available school_data of None \<Rightarrow> True | Some b \<Rightarrow> b)
                   then 100 else 0);
          toilet = (if (case shi_toilets_available school_data of None \<Rightarrow> True | Some b \<Rightarrow> b)
                    then 100 else 0);
          classroom_ratio =
            (case shi_students_per_classroom school_data of None \<Rightarrow> 40 | Some v \<Rightarrow> v);
          classroom_score = min 100 ((40 / max classroom_ratio 1) * 100);
          infra_score = water * (4 / 10) + toilet * (3 / 10) + classroom_score * (3 / 10);
          ptr = (case shi_ptr school_data of None \<Rightarrow> 30 | Some v \<Rightarrow> v);
          teacher_score = min 100 ((30 / max ptr 1) * 100);
          operational_score =
            (if (case shi_certified school_data of None \<Rightarrow> False | Some b \<Rightarrow> b)
             then 100 else 50);
          age_integrity = 90;
          shi = identity_score * (25 / 100) + infra_score * (25 / 100)
                + teacher_score * (20 / 100) + operational_score * (20 / 100)
                + age_integrity * (10 / 100)
      in py_round (min 100 (max 0 shi)) 1)"

section \<open>Rounding keeps integer bounds\<close>

lemma round_half_even_ge:
  assumes "of_int m \<le> y"
  shows "m \<le> round_half_even y"
proof -
  have "m \<le> \<lfloor>y\<rfloor>" using assms by (simp add: le_floor_iff)
  then show ?thesis by (simp add: round_half_even_def Let_def)
qed

lemma round_half_even_le:
  assumes "y \<le> of_int m"
  shows "round_half_even y \<le> m"
proof (cases "y - of_int \<lfloor>y\<rfloor> < 1 / 2")
  case True
  have "\<lfloor>y\<rfloor> \<le> m" using assms by (simp add: floor_le_iff)
  with True show ?thesis by (simp add: round_half_even_def Let_def)
next
  case False
  then have "of_int \<lfloor>y\<rfloor> < y" by linarith
  then have "of_int \<lfloor>y\<rfloor> < (of_int m :: real)" using assms by linarith
  then have "\<lfloor>y\<rfloor> + 1 \<le> m" by simp
  then show ?thesis by (simp add: round_half_even_def Let_def)
qed

lemma py_round_bounds:
  assumes "of_int lo \<le> x" and "x \<le> of_int hi"
  shows "of_int lo \<le> py_round x n \<and> py_round x n \<le> of_int hi"
proof -
  have p: "(0::real) < 10 ^ n" by simp
  have "of_int (lo * 10 ^ n) \<le> x * 10 ^ n"
    using assms(1) by (simp add: mult_right_mono)
  then have a: "lo * 10 ^ n \<le> round_half_even (x * 10 ^ n)" by (rule round_half_even_ge)
  have "x * 10 ^ n \<le> of_int (hi * 10 ^ n)"
    using assms(2) by (simp add: mult_right_mono)
  then have b: "round_half_even (x * 10 ^ n) \<le> hi * 10 ^ n" by (rule round_half_even_le)
  from a have "(of_int (lo * 10 ^ n) :: real) \<le> of_int (round_half_even (x * 10 ^ n))"
    by (simp only: of_int_le_iff)
  then have a': "of_int lo \<le> py_round x n"
    using p by (simp add: py_round_def pos_le_divide_eq)
  from b have "(of_int (round_half_even (x * 10 ^ n)) :: real) \<le> of_int (hi * 10 ^ n)"
    by (simp only: of_int_le_iff)
  then have b': "py_round x n \<le> of_int hi"
    using p by (simp add: py_round_def pos_divide_le_eq)
  from a' b' show ?thesis by simp
qed

lemma py_round_0_100:
  assumes "0 \<le> x" and "x \<le> 100"
  shows "0 \<le> py_round x n \<and> py_round x n \<le> 100"
  using py_round_bounds [of 0 x 100 n] assms by simp


lemma py_round_zero: "py_round 0 n = 0"
  by (simp add: py_round_def round_half_even_def)

lemma ratio_percent_bounds:
  assumes "0 \<le> n" and "n \<le> d" and "0 < d"
  shows "0 \<le> (of_int n / of_int d * 100 :: real) \<and> (of_int n / of_int d * 100 :: real) \<le> 100"
proof -
  have "(of_int n :: real) \<le> of_int d" using assms by simp
  moreover have "(0::real) < of_int d" using assms by simp
  ultimately have "(of_int n / of_int d :: real) \<le> 1" by (simp add: divide_le_eq_1)
  then have "(of_int n / of_int d :: real) * 100 \<le> 1 * 100"
    by (rule mult_right_mono) simp
  moreover have "(0::real) \<le> of_int n / of_int d * 100" using assms by simp
  ultimately show ?thesis by simp
qed

section \<open>Status bands\<close>

text \<open>
  C6. The two modules band the composite score with different thresholds. In
  \<open>routers/executive.py\<close>, \<open>get_rag\<close> answers Green exactly from 85 up, Amber exactly
  from 70 up to (not including) 85, and Red below 70. In \<open>etl/etl_pipeline.py\<close> the
  district and block summaries answer green exactly from 75 up, amber exactly from 50 up
  to (not including) 75, and red below 50. The two schemes differ: a score of 80 is Amber
  in the first and green in the second.
\<close>

theorem rag_threshold_schemes:
  "(status (get_rag v) = ''Green'') = (v \<ge> 85)
   \<and> (status (get_rag v) = ''Amber'') = (v \<ge> 70 \<and> v < 85)
   \<and> (status (get_rag v) = ''Red'') = (v < 70)
   \<and> (rag_status v = ''green'') = (v \<ge> 75)
   \<and> (rag_status v = ''amber'') = (v \<ge> 50 \<and> v < 75)
   \<and> (rag_status v = ''red'') = (v < 50)
   \<and> (snd (summary_shi a p t) = rag_status (fst (summary_shi a p t)))
   \<and> status (get_rag 80) = ''Amber'' \<and> rag_status 80 = ''green''"
  by (simp add: get_rag_def rag_status_def summary_shi_def Let_def)

section \<open>Derived rates\<close>




text \<open>
  C8, as the specification states it, fails: the normalizers branch on the denominator
  and answer 0 when it is not positive; they do not floor it at 1. With numerator 5 and
  denominator 0 the code's rate is 0, where \<open>round(5 / max(0, 1) * 100, 1)\<close> is 500.
\<close>

theorem rate_zero_denominator_counterexample:
  "parse_aadhaar_percentage 0 5 = 0 \<and> spec_rate 5 0 1 = 500
   \<and> parse_aadhaar_percentage 0 5 \<noteq> spec_rate 5 0 1"
  by (simp add: parse_aadhaar_percentage_def spec_rate_def py_round_def round_half_even_def Let_def)

text \<open>
  C8, amended. Every normalizer branches on the denominator: when it is positive the
  rate is \<open>round(numerator / denominator * 100, k)\<close>, which there equals the
  specification's \<open>round(numerator / max(denominator, 1) * 100, k)\<close>, with \<open>k = 1\<close> in
  \<open>data_import/parser.py\<close> and \<open>k = 2\<close> in \<open>etl/etl_pipeline.py\<close>; when the denominator
  is 0 (or negative) the rate is 0 for every numerator.
\<close>

theorem rate_branches_on_denominator:
  "(0 < d \<longrightarrow>
      parse_aadhaar_percentage d n = spec_rate n d 1
      \<and> parse_aadhaar_percentage d n = py_round (of_int n / of_int d * 100) 1
      \<and> parse_apaar_pct d n = spec_rate n d 1
      \<and> etl_exception_rate d n = spec_rate n d 2
      \<and> etl_generation_rate d n = spec_rate n d 2
      \<and> etl_completion_rate d n = spec_rate n d 2)
   \<and> (d \<le> 0 \<longrightarrow>
      parse_aadhaar_percentage d n = 0 \<and> parse_apaar_pct d n = 0
      \<and> etl_exception_rate d n = 0 \<and> etl_generation_rate d n = 0
      \<and> etl_completion_rate d n = 0)"
proof (intro conjI impI)
  assume "0 < d"
  then have m: "max d 1 = d" by simp
  show "parse_aadhaar_percentage d n = spec_rate n d 1"
    using \<open>0 < d\<close> by (simp add: parse_aadhaar_percentage_def spec_rate_def m)
  show "parse_aadhaar_percentage d n = py_round (of_int n / of_int d * 100) 1"
    using \<open>0 < d\<close> by (simp add: parse_aadhaar_percentage_def)
  show "parse_apaar_pct d n = spec_rate n d 1"
    using \<open>0 < d\<close> by (simp add: parse_apaar_pct_def spec_rate_def m)
  show "etl_exception_rate d n = spec_rate n d 2"
    using \<open>0 < d\<close> by (simp add: etl_exception_rate_def spec_rate_def m)
  show "etl_generation_rate d n = spec_rate n d 2"
    using \<open>0 < d\<close> by (simp add: etl_generation_rate_def spec_rate_def m)
  show "etl_completion_rate d n = spec_rate n d 2"
    using \<open>0 < d\<close> by (simp add: etl_completion_rate_def spec_rate_def m)
next
  assume "d \<le> 0"
  then have z: "\<not> 0 < d" by simp
  show "parse_aadhaar_percentage d n = 0" using z by (simp add: parse_aadhaar_percentage_def)
  show "parse_apaar_pct d n = 0" using z by (simp add: parse_apaar_pct_def)
  show "etl_exception_rate d n = 0" using z by (simp add: etl_exception_rate_def py_round_zero)
  show "etl_generation_rate d n = 0" using z by (simp add: etl_generation_rate_def py_round_zero)
  show "etl_completion_rate d n = 0" using z by (simp add: etl_completion_rate_def py_round_zero)
qed

theorem rate_branches_on_denominator_witness:
  "(0::int) < 4 \<and> parse_aadhaar_percentage 4 1 = spec_rate 1 4 1
   \<and> etl_completion_rate 4 1 = spec_rate 1 4 2
   \<and> (0::int) \<le> 0 \<and> parse_aadhaar_percentage 0 5 = 0 \<and> etl_completion_rate 0 5 = 0"
  using rate_branches_on_denominator [of 4 1] rate_branches_on_denominator [of 0 5] by simp

section \<open>Composite score\<close>

text \<open>
  Without a clamp the weighted sums stay in [0, 100] only as long as every sub-score
  does; in the summaries of the ETL that is the case when in each group the numerator
  is between 0 and the denominator.
\<close>

lemma composite_score_bounds:
  "(0 \<le> i \<and> i \<le> 100 \<and> 0 \<le> f \<and> f \<le> 100 \<and> 0 \<le> t \<and> t \<le> 100 \<and> 0 \<le> ops \<and> ops \<le> 100 \<longrightarrow>
      0 \<le> school_health_index i f t ops \<and> school_health_index i f t ops \<le> 100)
   \<and> (0 \<le> i \<and> i \<le> 100 \<and> 0 \<le> f \<and> f \<le> 100 \<and> 0 \<le> t \<and> t \<le> 100 \<longrightarrow>
      0 \<le> shi_score i f t \<and> shi_score i f t \<le> 100)
   \<and> (0 \<le> an \<and> an \<le> ad \<and> 0 \<le> pn \<and> pn \<le> pd \<and> 0 \<le> tn \<and> tn \<le> td \<longrightarrow>
      0 \<le> fst (summary_shi (Some (an, ad)) (Some (pn, pd)) (Some (tn, td)))
      \<and> fst (summary_shi (Some (an, ad)) (Some (pn, pd)) (Some (tn, td))) \<le> 100)"
proof (intro conjI impI)
  assume h: "0 \<le> i \<and> i \<le> 100 \<and> 0 \<le> f \<and> f \<le> 100 \<and> 0 \<le> t \<and> t \<le> 100 \<and> 0 \<le> ops \<and> ops \<le> 100"
  then have "0 \<le> i * (25 / 100) + f * (25 / 100) + t * (25 / 100) + ops * (25 / 100)
    \<and> i * (25 / 100) + f * (25 / 100) + t * (25 / 100) + ops * (25 / 100) \<le> 100"
    by simp
  then have b: "0 \<le> school_health_index i f t ops \<and> school_health_index i f t ops \<le> 100"
    unfolding school_health_index_def using py_round_0_100 by blast
  from b show "0 \<le> school_health_index i f t ops" by simp
  from b show "school_health_index i f t ops \<le> 100" by simp
next
  assume h: "0 \<le> i \<and> i \<le> 100 \<and> 0 \<le> f \<and> f \<le> 100 \<and> 0 \<le> t \<and> t \<le> 100"
  then have "0 \<le> i * (3 / 10) + f * (3 / 10) + t * (4 / 10)
    \<and> i * (3 / 10) + f * (3 / 10) + t * (4 / 10) \<le> 100"
    by simp
  then have b: "0 \<le> shi_score i f t \<and> shi_score i f t \<le> 100"
    unfolding shi_score_def using py_round_0_100 by blast
  from b show "0 \<le> shi_score i f t" by simp
  from b show "shi_score i f t \<le> 100" by simp
next
  assume h: "0 \<le> an \<and> an \<le> ad \<and> 0 \<le> pn \<and> pn \<le> pd \<and> 0 \<le> tn \<and> tn \<le> td"
  have g: "0 \<le> group_pct (Some (x, y)) \<and> group_pct (Some (x, y)) \<le> 100"
    if "0 \<le> x" and "x \<le> y" for x y
  proof (cases "0 < y")
    case True
    have "group_pct (Some (x, y)) = of_int x / of_int y * 100"
      using True by (simp add: group_pct_def)
    with that True show ?thesis using ratio_percent_bounds [of x y] by presburger
  next
    case False
    then show ?thesis by (simp add: group_pct_def)
  qed
  define a where "a = group_pct (Some (an, ad))"
  define p where "p = group_pct (Some (pn, pd))"
  define q where "q = group_pct (Some (tn, td))"
  have ab: "0 \<le> a \<and> a \<le> 100" unfolding a_def using g h by simp
  have pb: "0 \<le> p \<and> p \<le> 100" unfolding p_def using g h by simp
  have qb: "0 \<le> q \<and> q \<le> 100" unfolding q_def using g h by simp
  from ab pb qb have "0 \<le> a * (3 / 10) + p * (3 / 10) + q * (4 / 10)
    \<and> a * (3 / 10) + p * (3 / 10) + q * (4 / 10) \<le> 100"
    by simp
  then have b: "0 \<le> shi_score a p q \<and> shi_score a p q \<le> 100"
    unfolding shi_score_def using py_round_0_100 by blast
  from b show "0 \<le> fst (summary_shi (Some (an, ad)) (Some (pn, pd)) (Some (tn, td)))"
    by (simp add: summary_shi_def Let_def a_def p_def q_def)
  from b show "fst (summary_shi (Some (an, ad)) (Some (pn, pd)) (Some (tn, td))) \<le> 100"
    by (simp add: summary_shi_def Let_def a_def p_def q_def)
qed

text \<open>\<open>calculate_shi\<close> of \<open>server.py\<close> clamps its weighted sum before rounding.\<close>

lemma calculate_shi_clamped: "0 \<le> calculate_shi d \<and> calculate_shi d \<le> 100"
  unfolding calculate_shi_def Let_def by (rule py_round_0_100) simp_all

text \<open>
  C5. The claim that the composite score is clamped to [0, 100] fails for the School
  Health Index of \<open>routers/executive.py\<close>, which is the rounded weighted sum and
  nothing more. For a block whose four rates are all 100 the teacher rate is doubled
  to 200 and the block's index is 125; with every domain index at 200 the summary
  index is 200. \<open>calculate_shi\<close> of \<open>server.py\<close> computes the same kind of index and
  ends in \<open>round(min(100, max(0, shi)), 1)\<close>, so its result is in [0, 100] on every
  input.
\<close>

theorem composite_score_unclamped:
  "block_shi_value (Some 100) (Some 100) (Some 100) (Some 100) = 125
   \<and> \<not> block_shi_value (Some 100) (Some 100) (Some 100) (Some 100) \<le> 100
   \<and> school_health_index 200 200 200 200 = 200
   \<and> \<not> school_health_index 200 200 200 200 \<le> 100
   \<and> 0 \<le> calculate_shi d \<and> calculate_shi d \<le> 100"
  using calculate_shi_clamped [of d]
  by (simp add: block_shi_value_def school_health_index_def py_round_def round_half_even_def)

section \<open>Placeholder rows\<close>

lemma placeholder_loop_iff: "placeholder_loop vals = (\<exists>val\<in>set vals. is_placeholder_cell val)"
  by (induction vals) auto

lemma drop_to_last: "s \<noteq> [] \<Longrightarrow> drop (length s - Suc 0) s = [last s]"
  by (cases s rule: rev_cases) auto

lemma take_one_hd: "s \<noteq> [] \<Longrightarrow> take (Suc 0) s = [hd s]"
  by (cases s) auto

lemma startswith_paren: "startswith s ''('' = (s \<noteq> [] \<and> hd s = CHR ''('')"
  by (cases "s = []") (auto simp: startswith_def take_one_hd)

lemma endswith_paren: "endswith s '')'' = (s \<noteq> [] \<and> last s = CHR '')'')"
  by (cases "s = []") (auto simp: endswith_def drop_to_last Suc_le_eq)

lemma is_placeholder_cell_iff:
  "is_placeholder_cell val = (\<exists>s. val = VStr s \<and> s \<noteq> [] \<and> hd s = CHR ''('' \<and> last s = CHR '')'')"
  by (cases val) (auto simp: is_placeholder_cell_def startswith_paren endswith_paren)

lemma spec_paren_digits_cell:
  "spec_paren_digits s \<Longrightarrow> is_placeholder_cell (VStr s)"
  by (auto simp: spec_paren_digits_def is_placeholder_cell_iff)

text \<open>
  C4, as the specification states it, fails in the "only if" direction: the code tests
  only that a cell is a string that starts with "(" and ends with ")", so the
  one-cell row \<open>["(abc)"]\<close> is classified as a placeholder although no cell of it is
  "(digits)".
\<close>

theorem placeholder_row_counterexample:
  "is_placeholder_row [VStr ''(abc)''] \<and> \<not> spec_placeholder_row [VStr ''(abc)'']"
  by (simp add: is_placeholder_row_def is_placeholder_cell_def startswith_def endswith_def
      spec_placeholder_row_def spec_paren_digits_def is_digit_def)

text \<open>
  C4, amended. The filter classifies a row as a placeholder if and only if at least one
  of its first 5 cells is a string that starts with "(" and ends with ")". Every row
  with a "(digits)" string among its first 5 cells is therefore classified as a
  placeholder; the row \<open>["(1)", "(2)", "School A", ...]\<close> is classified as a placeholder
  and dropped, and the row \<open>["UDISE001", "2701", "School A"]\<close> is retained.
\<close>

theorem placeholder_row_filter:
  "is_placeholder_row row =
     (\<exists>val\<in>set (take 5 row). \<exists>s. val = VStr s \<and> s \<noteq> [] \<and> hd s = CHR ''('' \<and> last s = CHR '')'')
   \<and> (spec_placeholder_row row \<longrightarrow> is_placeholder_row row)
   \<and> is_placeholder_row (VStr ''(1)'' # VStr ''(2)'' # VStr ''School A'' # rest)
   \<and> \<not> is_placeholder_row [VStr ''UDISE001'', VStr ''2701'', VStr ''School A'']
   \<and> read_excel_skip_placeholders
        [[VStr ''(1)'', VStr ''(2)'', VStr ''School A''],
         [VStr ''UDISE001'', VStr ''2701'', VStr ''School A'']]
      = [[VStr ''UDISE001'', VStr ''2701'', VStr ''School A'']]"
proof (intro conjI impI)
  show "is_placeholder_row row =
     (\<exists>val\<in>set (take 5 row). \<exists>s. val = VStr s \<and> s \<noteq> [] \<and> hd s = CHR ''('' \<and> last s = CHR '')'')"
    by (simp add: is_placeholder_row_def placeholder_loop_iff is_placeholder_cell_iff)
next
  assume "spec_placeholder_row row"
  then obtain val where v: "val \<in> set (take 5 row)"
    and c: "case val of VStr s \<Rightarrow> spec_paren_digits s | _ \<Rightarrow> False"
    by (auto simp: spec_placeholder_row_def list_ex_iff)
  from c have "is_placeholder_cell val"
    by (cases val) (simp_all add: spec_paren_digits_cell)
  with v show "is_placeholder_row row"
    by (auto simp: is_placeholder_row_def placeholder_loop_iff)
next
  show "is_placeholder_row (VStr ''(1)'' # VStr ''(2)'' # VStr ''School A'' # rest)"
    by (simp add: is_placeholder_row_def is_placeholder_cell_def startswith_def endswith_def)
next
  show "\<not> is_placeholder_row [VStr ''UDISE001'', VStr ''2701'', VStr ''School A'']"
    by (simp add: is_placeholder_row_def is_placeholder_cell_def startswith_def endswith_def)
next
  show "read_excel_skip_placeholders
        [[VStr ''(1)'', VStr ''(2)'', VStr ''School A''],
         [VStr ''UDISE001'', VStr ''2701'', VStr ''School A'']]
      = [[VStr ''UDISE001'', VStr ''2701'', VStr ''School A'']]"
    by (simp add: read_excel_skip_placeholders_def is_placeholder_row_def is_placeholder_cell_def
        startswith_def endswith_def)
qed

theorem placeholder_row_filter_witness:
  "spec_placeholder_row [VInt 4, VStr ''(17)''] \<and> is_placeholder_row [VInt 4, VStr ''(17)'']"
proof -
  have "spec_placeholder_row [VInt 4, VStr ''(17)'']"
    by (simp add: spec_placeholder_row_def spec_paren_digits_def is_digit_def)
  then show ?thesis using placeholder_row_filter [of "[VInt 4, VStr ''(17)'']"] by blast
qed

section \<open>Enrolment totals\<close>

lemma enrolment_loop_sums:
  "enrolment_loop row columns (b, g, t) =
     (b + column_sum (\<lambda>c. str_contains c ''(Boys)'') columns row,
      g + column_sum (\<lambda>c. str_contains c ''(Girls)'' \<and> \<not> str_contains c ''(Boys)'') columns row,
      t + column_sum (\<lambda>c. str_contains c ''(Trans)'' \<and> \<not> str_contains c ''(Boys)''
                            \<and> \<not> str_contains c ''(Girls)'') columns row)"
proof (induction columns arbitrary: b g t)
  case Nil
  show ?case by (simp add: column_sum_def)
next
  case (Cons col columns)
  show ?case
    by (auto simp: Cons.IH column_sum_def)
qed

lemma etl_safe_int_VInt: "\<bar>i\<bar> \<le> 2 ^ 53 \<Longrightarrow> etl_safe_int (VInt i) = i"
  by (simp add: etl_safe_int_def etl_safe_int_try_def int_float_def)

text \<open>
  C10, as stated, fails: the markers are tested in an \<open>if/elif/elif\<close> chain, so a column
  whose name contains two markers is counted under the first only. With the single
  column \<open>X(Boys)(Girls)\<close> holding 3, \<open>girls_enrolment\<close> is 0 while the columns whose
  name contains "(Girls)" sum to 3.
\<close>

theorem enrolment_totals_counterexample:
  "girls_enrolment (etl_enrolment_row [''X(Boys)(Girls)''] [''X(Boys)(Girls)'' \<mapsto> VInt 3]) = 0
   \<and> column_sum (\<lambda>c. str_contains c ''(Girls)'') [''X(Boys)(Girls)'']
        [''X(Boys)(Girls)'' \<mapsto> VInt 3] = 3"
  by (simp add: etl_enrolment_row_def column_sum_def row_get_def startswith_def
      etl_safe_int_VInt)

text \<open>
  C10, amended. Every record emitted by the enrolment transformation satisfies
  \<open>total_enrolment = boys_enrolment + girls_enrolment + trans_enrolment\<close>, where
  \<open>boys_enrolment\<close> is the sum of the coerced values of all columns whose name contains
  "(Boys)", \<open>girls_enrolment\<close> that of the columns whose name contains "(Girls)" but not
  "(Boys)", and \<open>trans_enrolment\<close> that of the columns whose name contains "(Trans)" but
  neither "(Boys)" nor "(Girls)". When no column name contains two markers, each addend
  is the sum over all columns whose name contains its marker.
\<close>

theorem enrolment_totals:
  "total_enrolment (etl_enrolment_row columns row) =
     boys_enrolment (etl_enrolment_row columns row)
     + girls_enrolment (etl_enrolment_row columns row)
     + trans_enrolment (etl_enrolment_row columns row)
   \<and> boys_enrolment (etl_enrolment_row columns row) =
       column_sum (\<lambda>c. str_contains c ''(Boys)'') columns row
   \<and> girls_enrolment (etl_enrolment_row columns row) =
       column_sum (\<lambda>c. str_contains c ''(Girls)'' \<and> \<not> str_contains c ''(Boys)'') columns row
   \<and> trans_enrolment (etl_enrolment_row columns row) =
       column_sum (\<lambda>c. str_contains c ''(Trans)'' \<and> \<not> str_contains c ''(Boys)''
                        \<and> \<not> str_contains c ''(Girls)'') columns row
   \<and> ((\<forall>c\<in>set columns.
          \<not> (str_contains c ''(Boys)'' \<and> str_contains c ''(Girls)'')
          \<and> \<not> (str_contains c ''(Boys)'' \<and> str_contains c ''(Trans)'')
          \<and> \<not> (str_contains c ''(Girls)'' \<and> str_contains c ''(Trans)'')) \<longrightarrow>
        girls_enrolment (etl_enrolment_row columns row) =
          column_sum (\<lambda>c. str_contains c ''(Girls)'') columns row
        \<and> trans_enrolment (etl_enrolment_row columns row) =
          column_sum (\<lambda>c. str_contains c ''(Trans)'') columns row)
   \<and> (\<forall>r\<in>set (etl_enrolment columns df).
        total_enrolment r = boys_enrolment r + girls_enrolment r + trans_enrolment r)"
proof (intro conjI impI ballI)
  show "total_enrolment (etl_enrolment_row columns row) =
     boys_enrolment (etl_enrolment_row columns row)
     + girls_enrolment (etl_enrolment_row columns row)
     + trans_enrolment (etl_enrolment_row columns row)"
    by (simp add: etl_enrolment_row_def split: prod.splits)
  show "boys_enrolment (etl_enrolment_row columns row) =
       column_sum (\<lambda>c. str_contains c ''(Boys)'') columns row"
    by (simp add: etl_enrolment_row_def enrolment_loop_sums)
  show g: "girls_enrolment (etl_enrolment_row columns row) =
       column_sum (\<lambda>c. str_contains c ''(Girls)'' \<and> \<not> str_contains c ''(Boys)'') columns row"
    by (simp add: etl_enrolment_row_def enrolment_loop_sums)
  show t: "trans_enrolment (etl_enrolment_row columns row) =
       column_sum (\<lambda>c. str_contains c ''(Trans)'' \<and> \<not> str_contains c ''(Boys)''
                        \<and> \<not> str_contains c ''(Girls)'') columns row"
    by (simp add: etl_enrolment_row_def enrolment_loop_sums)
  {
    assume one: "\<forall>c\<in>set columns.
          \<not> (str_contains c ''(Boys)'' \<and> str_contains c ''(Girls)'')
          \<and> \<not> (str_contains c ''(Boys)'' \<and> str_contains c ''(Trans)'')
          \<and> \<not> (str_contains c ''(Girls)'' \<and> str_contains c ''(Trans)'')"
    have "filter (\<lambda>c. str_contains c ''(Girls)'' \<and> \<not> str_contains c ''(Boys)'') columns
        = filter (\<lambda>c. str_contains c ''(Girls)'') columns"
      by (rule filter_cong) (use one in auto)
    then show "girls_enrolment (etl_enrolment_row columns row) =
          column_sum (\<lambda>c. str_contains c ''(Girls)'') columns row"
      by (simp add: g column_sum_def)
    have "filter (\<lambda>c. str_contains c ''(Trans)'' \<and> \<not> str_contains c ''(Boys)''
                        \<and> \<not> str_contains c ''(Girls)'') columns
        = filter (\<lambda>c. str_contains c ''(Trans)'') columns"
      by (rule filter_cong) (use one in auto)
    then show "trans_enrolment (etl_enrolment_row columns row) =
          column_sum (\<lambda>c. str_contains c ''(Trans)'') columns row"
      by (simp add: t column_sum_def)
  }
  fix r assume "r \<in> set (etl_enrolment columns df)"
  then show "total_enrolment r = boys_enrolment r + girls_enrolment r + trans_enrolment r"
    by (auto simp: etl_enrolment_def etl_enrolment_row_def split: prod.splits)
qed

theorem enrolment_totals_witness:
  "(\<forall>c\<in>set [''PP1(Boys)'', ''PP1(Girls)'', ''School Name''].
      \<not> (str_contains c ''(Boys)'' \<and> str_contains c ''(Girls)'')
      \<and> \<not> (str_contains c ''(Boys)'' \<and> str_contains c ''(Trans)'')
      \<and> \<not> (str_contains c ''(Girls)'' \<and> str_contains c ''(Trans)'')) = True
   \<and> etl_enrolment_row [''PP1(Boys)'', ''PP1(Girls)'', ''School Name'']
        [''PP1(Boys)'' \<mapsto> VInt 7, ''PP1(Girls)'' \<mapsto> VStr ''5'']
      \<in> set (etl_enrolment [''PP1(Boys)'', ''PP1(Girls)'', ''School Name'']
              [[''PP1(Boys)'' \<mapsto> VInt 7, ''PP1(Girls)'' \<mapsto> VStr ''5'']])
   \<and> girls_enrolment (etl_enrolment_row [''PP1(Boys)'', ''PP1(Girls)'', ''School Name'']
        [''PP1(Boys)'' \<mapsto> VInt 7, ''PP1(Girls)'' \<mapsto> VStr ''5''])
      = column_sum (\<lambda>c. str_contains c ''(Girls)'') [''PP1(Boys)'', ''PP1(Girls)'', ''School Name'']
          [''PP1(Boys)'' \<mapsto> VInt 7, ''PP1(Girls)'' \<mapsto> VStr ''5'']
   \<and> total_enrolment (etl_enrolment_row [''PP1(Boys)'', ''PP1(Girls)'', ''School Name'']
        [''PP1(Boys)'' \<mapsto> VInt 7, ''PP1(Girls)'' \<mapsto> VStr ''5''])
      = boys_enrolment (etl_enrolment_row [''PP1(Boys)'', ''PP1(Girls)'', ''School Name'']
          [''PP1(Boys)'' \<mapsto> VInt 7, ''PP1(Girls)'' \<mapsto> VStr ''5''])
        + girls_enrolment (etl_enrolment_row [''PP1(Boys)'', ''PP1(Girls)'', ''School Name'']
          [''PP1(Boys)'' \<mapsto> VInt 7, ''PP1(Girls)'' \<mapsto> VStr ''5''])
        + trans_enrolment (etl_enrolment_row [''PP1(Boys)'', ''PP1(Girls)'', ''School Name'']
          [''PP1(Boys)'' \<mapsto> VInt 7, ''PP1(Girls)'' \<mapsto> VStr ''5''])"
proof -
  have one: "\<forall>c\<in>set [''PP1(Boys)'', ''PP1(Girls)'', ''School Name''].
      \<not> (str_contains c ''(Boys)'' \<and> str_contains c ''(Girls)'')
      \<and> \<not> (str_contains c ''(Boys)'' \<and> str_contains c ''(Trans)'')
      \<and> \<not> (str_contains c ''(Girls)'' \<and> str_contains c ''(Trans)'')"
    by (simp add: startswith_def)
  have mem: "etl_enrolment_row [''PP1(Boys)'', ''PP1(Girls)'', ''School Name'']
        [''PP1(Boys)'' \<mapsto> VInt 7, ''PP1(Girls)'' \<mapsto> VStr ''5'']
      \<in> set (etl_enrolment [''PP1(Boys)'', ''PP1(Girls)'', ''School Name'']
              [[''PP1(Boys)'' \<mapsto> VInt 7, ''PP1(Girls)'' \<mapsto> VStr ''5'']])"
    by (simp add: etl_enrolment_def)
  show ?thesis
    using one mem
      enrolment_totals [of "[''PP1(Boys)'', ''PP1(Girls)'', ''School Name'']"
        "[''PP1(Boys)'' \<mapsto> VInt 7, ''PP1(Girls)'' \<mapsto> VStr ''5'']"
        "[[''PP1(Boys)'' \<mapsto> VInt 7, ''PP1(Girls)'' \<mapsto> VStr ''5'']]"]
    by blast
qed

section \<open>Totality of the coercion layer\<close>

text \<open>
  The functions of \<open>etl/etl_pipeline.py\<close> are total by their bare \<open>except\<close>; these are
  their values on the missing and the empty cell.
\<close>

lemma etl_defaults:
  "etl_safe_int VNone = 0 \<and> etl_safe_int (VFloat NaN) = 0 \<and> etl_safe_int (VStr []) = 0
   \<and> etl_safe_float VNone = Fin 0 \<and> etl_safe_float (VFloat NaN) = Fin 0
   \<and> etl_safe_float (VStr []) = Fin 0
   \<and> safe_str py_str VNone = [] \<and> safe_str py_str (VFloat NaN) = []
   \<and> safe_str py_str (VStr []) = []"
  by (simp add: etl_safe_int_def etl_safe_int_try_def etl_safe_float_def safe_str_def
      int_float_def float_of_str_def float_strip_def py_strip_def py_lower_def startswith_def
      endswith_def
      parse_number_def digitpart_def)

lemma float_of_str_not_overflow:
  "float_of_str s \<noteq> Inl OverflowError \<and> float_of_str s \<noteq> Inl TypeError"
  by (simp add: float_of_str_def Let_def split: option.splits)

text \<open>A string that \<open>float\<close> rejects is coerced to the zero value by every function.\<close>

lemma unparseable_defaults:
  assumes "float_of_str s = Inl ValueError"
  shows "parser_safe_int (VStr s) = Inr 0 \<and> parser_safe_float (VStr s) = Inr (Fin 0)
     \<and> etl_safe_float (VStr s) = Fin 0"
  using assms
  by (simp add: parser_safe_int_def parser_safe_float_def etl_safe_float_def int_float_def)

text \<open>
  \<open>safe_float\<close> of \<open>data_import/parser.py\<close> returns on every cell but an integer too
  large for a float.
\<close>

lemma parser_safe_float_returns:
  "(\<exists>f. parser_safe_float val = Inr f) =
     (\<forall>i. val = VInt i \<longrightarrow> py_float (VInt i) \<noteq> Inl OverflowError)"
proof (cases val)
  case (VStr s)
  then show ?thesis
    using float_of_str_not_overflow [of s]
    by (cases "float_of_str s"; simp add: parser_safe_float_def split: exn.splits)
next
  case (VFloat f)
  then show ?thesis by (cases f) (simp_all add: parser_safe_float_def)
next
  case (VInt i)
  then show ?thesis
    by (cases "to_float (real_of_int i)") (simp_all add: parser_safe_float_def)
qed (simp_all add: parser_safe_float_def)

text \<open>
  \<open>safe_int\<close> of \<open>data_import/parser.py\<close> either returns or raises \<open>OverflowError\<close>, and
  it raises exactly when \<open>float(val)\<close> overflows or is an infinity.
\<close>

lemma parser_safe_int_cases:
  "(\<exists>n. parser_safe_int val = Inr n) \<or> parser_safe_int val = Inl OverflowError"
  by (simp add: parser_safe_int_def split: sum.splits exn.splits)

lemma parser_safe_int_raises_iff:
  "(parser_safe_int val = Inl OverflowError) =
     (py_float val = Inl OverflowError \<or> py_float val = Inr PosInf \<or> py_float val = Inr NegInf)"
proof (cases "isna val")
  case True
  then show ?thesis by (cases val rule: isna.cases) (simp_all add: parser_safe_int_def)
next
  case False
  show ?thesis
  proof (cases "py_float val")
    case (Inl e)
    with False show ?thesis by (cases e) (simp_all add: parser_safe_int_def int_float_def)
  next
    case (Inr f)
    with False show ?thesis by (cases f) (simp_all add: parser_safe_int_def int_float_def)
  qed
qed

text \<open>
  C3. The claim that no coercion function ever raises fails for \<open>safe_int\<close> of
  \<open>data_import/parser.py\<close>: on the text cell \<open>inf\<close> (or \<open>-Infinity\<close>, or a float
  infinity) \<open>float\<close> succeeds with an infinity, \<open>int\<close> of it raises \<open>OverflowError\<close>,
  and the handler catches only \<open>ValueError\<close> and \<open>TypeError\<close>. The function of the same
  name in \<open>etl/etl_pipeline.py\<close> returns 0 on that cell.
\<close>

theorem parser_safe_int_overflow:
  "parser_safe_int (VStr ''inf'') = Inl OverflowError
   \<and> parser_safe_int (VStr ''-Infinity'') = Inl OverflowError
   \<and> parser_safe_int (VFloat PosInf) = Inl OverflowError
   \<and> etl_safe_int (VStr ''inf'') = 0"
  by (simp add: parser_safe_int_def etl_safe_int_def etl_safe_int_try_def int_float_def
      float_of_str_def float_strip_def is_c_space_def py_lower_def lower_char_def
      startswith_def endswith_def is_digit_def)

section \<open>Invariants of the aggregation loop\<close>

lemma map_of_dict_init:
  "map_of (dict_init k v d) = (if map_of d k = None then (map_of d)(k \<mapsto> v) else map_of d)"
  by (auto simp: dict_init_def map_add_def fun_eq_iff split: option.splits)

lemma distinct_dict_init:
  "distinct (map fst d) \<Longrightarrow> distinct (map fst (dict_init k v d))"
  by (auto simp: dict_init_def map_of_eq_None_iff)

lemma map_of_init_entry:
  "map_of (AList.map_entry k f (dict_init k v d)) =
     (map_of d)(k \<mapsto> f (case map_of d k of None \<Rightarrow> v | Some x \<Rightarrow> x))"
  by (auto simp: map_of_map_entry map_of_dict_init fun_eq_iff split: option.splits)

lemma distinct_init_entry:
  "distinct (map fst d) \<Longrightarrow> distinct (map fst (AList.map_entry k f (dict_init k v d)))"
  by (simp add: distinct_map_entry distinct_dict_init)

lemma fst_aggregate_school:
  "fst (aggregate_school sch st) =
     (if skipped sch then fst st
      else AList.map_entry (school_district sch) (add_to_district sch)
             (dict_init (school_district sch) (new_district (school_district sch)) (fst st)))"
  by (simp add: aggregate_school_def split: prod.splits)

lemma snd_aggregate_school:
  "snd (aggregate_school sch st) =
     (if skipped sch then snd st
      else AList.map_entry (school_block_key sch) (add_to_block sch)
             (dict_init (school_block_key sch)
                (new_block (school_district sch) (school_block sch)) (snd st)))"
  by (simp add: aggregate_school_def split: prod.splits)

lemma add_to_district_fields:
  "d_district_name (add_to_district sch d) = d_district_name d"
  "d_total_schools (add_to_district sch d) = d_total_schools d + 1"
  "d_schools_with_data (add_to_district sch d) =
     (if truthy_real (s_aadhaar_percentage sch) then d_schools_with_data d + 1
      else d_schools_with_data d)"
  by (simp_all add: add_to_district_def)

lemma add_to_block_fields:
  "b_district_name (add_to_block sch b) = b_district_name b"
  "b_block_name (add_to_block sch b) = b_block_name b"
  "b_total_schools (add_to_block sch b) = b_total_schools b + 1"
  "b_schools_with_data (add_to_block sch b) =
     (if truthy_real (s_aadhaar_percentage sch) then b_schools_with_data b + 1
      else b_schools_with_data b)"
  by (simp_all add: add_to_block_def)

lemma new_district_fields:
  "d_district_name (new_district k) = k" "d_total_schools (new_district k) = 0"
  "d_schools_with_data (new_district k) = 0"
  by (simp_all add: new_district_def)

lemma new_block_fields:
  "b_district_name (new_block k j) = k" "b_block_name (new_block k j) = j"
  "b_total_schools (new_block k j) = 0" "b_schools_with_data (new_block k j) = 0"
  by (simp_all add: new_block_def)

lemma districts_invariant:
  "distinct (map fst (fst (fold aggregate_school xs ([], []))))
   \<and> (\<forall>k. case map_of (fst (fold aggregate_school xs ([], []))) k of
          None \<Rightarrow> filter (\<lambda>s. \<not> skipped s \<and> school_district s = k) xs = []
        | Some d \<Rightarrow>
            d_district_name d = k
            \<and> d_total_schools d =
                int (length (filter (\<lambda>s. \<not> skipped s \<and> school_district s = k) xs))
            \<and> 0 \<le> d_schools_with_data d \<and> d_schools_with_data d \<le> d_total_schools d)"
proof (induction xs rule: rev_induct)
  case Nil
  show ?case by simp
next
  case (snoc x xs)
  define ds where "ds = fst (fold aggregate_school xs ([], []))"
  have dist: "distinct (map fst ds)" and
    inv: "\<And>k. case map_of ds k of
          None \<Rightarrow> filter (\<lambda>s. \<not> skipped s \<and> school_district s = k) xs = []
        | Some d \<Rightarrow>
            d_district_name d = k
            \<and> d_total_schools d =
                int (length (filter (\<lambda>s. \<not> skipped s \<and> school_district s = k) xs))
            \<and> 0 \<le> d_schools_with_data d \<and> d_schools_with_data d \<le> d_total_schools d"
    using snoc.IH unfolding ds_def by auto
  have step: "fst (aggregate_school x (fold aggregate_school xs ([], []))) =
      (if skipped x then ds
       else AList.map_entry (school_district x) (add_to_district x)
              (dict_init (school_district x) (new_district (school_district x)) ds))"
    by (simp add: fst_aggregate_school ds_def)
  show ?case
  proof (cases "skipped x")
    case True
    have "filter (\<lambda>s. \<not> skipped s \<and> school_district s = k) (xs @ [x])
        = filter (\<lambda>s. \<not> skipped s \<and> school_district s = k) xs" for k
      using True by simp
    then show ?thesis using True dist inv by (simp only: fold_append o_apply fold_simps step if_True simp_thms)
  next
    case False
    have "distinct (map fst (fst (aggregate_school x (fold aggregate_school xs ([], [])))))"
      using False dist by (simp add: step distinct_init_entry)
    moreover have "case map_of (fst (aggregate_school x (fold aggregate_school xs ([], [])))) k of
          None \<Rightarrow> filter (\<lambda>s. \<not> skipped s \<and> school_district s = k) (xs @ [x]) = []
        | Some d \<Rightarrow>
            d_district_name d = k
            \<and> d_total_schools d =
                int (length (filter (\<lambda>s. \<not> skipped s \<and> school_district s = k) (xs @ [x])))
            \<and> 0 \<le> d_schools_with_data d \<and> d_schools_with_data d \<le> d_total_schools d" for k
      using False inv [of k]
      by (auto simp: step map_of_init_entry add_to_district_fields new_district_fields
          split: option.splits)
    ultimately show ?thesis by simp
  qed
qed


lemma blocks_invariant:
  "distinct (map fst (snd (fold aggregate_school xs ([], []))))
   \<and> (\<forall>k. case map_of (snd (fold aggregate_school xs ([], []))) k of
          None \<Rightarrow> filter (\<lambda>s. \<not> skipped s \<and> school_block_key s = k) xs = []
        | Some b \<Rightarrow>
            block_key (b_district_name b) (b_block_name b) = k
            \<and> b_total_schools b =
                int (length (filter (\<lambda>s. \<not> skipped s \<and> school_block_key s = k) xs))
            \<and> 0 \<le> b_schools_with_data b \<and> b_schools_with_data b \<le> b_total_schools b)"
proof (induction xs rule: rev_induct)
  case Nil
  show ?case by simp
next
  case (snoc x xs)
  define bs where "bs = snd (fold aggregate_school xs ([], []))"
  have dist: "distinct (map fst bs)" and
    inv: "\<And>k. case map_of bs k of
          None \<Rightarrow> filter (\<lambda>s. \<not> skipped s \<and> school_block_key s = k) xs = []
        | Some b \<Rightarrow>
            block_key (b_district_name b) (b_block_name b) = k
            \<and> b_total_schools b =
                int (length (filter (\<lambda>s. \<not> skipped s \<and> school_block_key s = k) xs))
            \<and> 0 \<le> b_schools_with_data b \<and> b_schools_with_data b \<le> b_total_schools b"
    using snoc.IH unfolding bs_def by auto
  have step: "snd (aggregate_school x (fold aggregate_school xs ([], []))) =
      (if skipped x then bs
       else AList.map_entry (school_block_key x) (add_to_block x)
              (dict_init (school_block_key x)
                 (new_block (school_district x) (school_block x)) bs))"
    by (simp add: snd_aggregate_school bs_def)
  show ?case
  proof (cases "skipped x")
    case True
    have "filter (\<lambda>s. \<not> skipped s \<and> school_block_key s = k) (xs @ [x])
        = filter (\<lambda>s. \<not> skipped s \<and> school_block_key s = k) xs" for k
      using True by simp
    then show ?thesis using True dist inv
      by (simp only: fold_append o_apply fold_simps step if_True simp_thms)
  next
    case False
    have "distinct (map fst (snd (aggregate_school x (fold aggregate_school xs ([], [])))))"
      using False dist by (simp add: step distinct_init_entry)
    moreover have "case map_of (snd (aggregate_school x (fold aggregate_school xs ([], [])))) k of
          None \<Rightarrow> filter (\<lambda>s. \<not> skipped s \<and> school_block_key s = k) (xs @ [x]) = []
        | Some b \<Rightarrow>
            block_key (b_district_name b) (b_block_name b) = k
            \<and> b_total_schools b =
                int (length (filter (\<lambda>s. \<not> skipped s \<and> school_block_key s = k) (xs @ [x])))
            \<and> 0 \<le> b_schools_with_data b \<and> b_schools_with_data b \<le> b_total_schools b" for k
      using False inv [of k]
      by (auto simp: step map_of_init_entry add_to_block_fields new_block_fields
          school_block_key_def split: option.splits)
    ultimately show ?thesis by simp
  qed
qed

lemma finish_district_fields:
  "d_district_name (finish_district d) = d_district_name d"
  "d_total_schools (finish_district d) = d_total_schools d"
  "d_schools_with_data (finish_district d) = d_schools_with_data d"
  by (simp_all add: finish_district_def)

lemma finish_block_fields:
  "b_district_name (finish_block b) = b_district_name b"
  "b_block_name (finish_block b) = b_block_name b"
  "b_total_schools (finish_block b) = b_total_schools b"
  "b_schools_with_data (finish_block b) = b_schools_with_data b"
  by (simp_all add: finish_block_def)

lemma districts_of_aggregated:
  "districts (get_aggregated_data sd) =
     map (\<lambda>(k, d). finish_district d) (fst (fold aggregate_school (map snd sd) ([], [])))"
  by (simp add: get_aggregated_data_def split: prod.splits)

lemma blocks_of_aggregated:
  "blocks (get_aggregated_data sd) =
     map (\<lambda>(k, b). finish_block b) (snd (fold aggregate_school (map snd sd) ([], [])))"
  by (simp add: get_aggregated_data_def split: prod.splits)

text \<open>
  By the keys of the two dictionaries: in every district aggregate and every block
  aggregate that the aggregator produces, \<open>total_schools\<close> is the number of school
  records that are not skipped and have that district name, respectively that
  \<open>block_key\<close> string, and \<open>schools_with_data\<close> is at most \<open>total_schools\<close>.
\<close>

lemma aggregate_invariant:
  "(\<forall>d\<in>set (districts (get_aggregated_data sd)).
      d_total_schools d =
        int (length (filter (\<lambda>s. \<not> skipped s \<and> school_district s = d_district_name d)
                       (map snd sd)))
      \<and> d_schools_with_data d \<le> d_total_schools d)
   \<and> (\<forall>b\<in>set (blocks (get_aggregated_data sd)).
      b_total_schools b =
        int (length (filter (\<lambda>s. \<not> skipped s
                                  \<and> school_block_key s = block_key (b_district_name b) (b_block_name b))
                       (map snd sd)))
      \<and> b_schools_with_data b \<le> b_total_schools b)"
proof (intro conjI ballI)
  fix d assume "d \<in> set (districts (get_aggregated_data sd))"
  then obtain k a where ka: "(k, a) \<in> set (fst (fold aggregate_school (map snd sd) ([], [])))"
    and d: "d = finish_district a"
    by (auto simp: districts_of_aggregated)
  from ka have m: "map_of (fst (fold aggregate_school (map snd sd) ([], []))) k = Some a"
    using districts_invariant [of "map snd sd"] by simp
  have i: "d_district_name a = k
      \<and> d_total_schools a =
          int (length (filter (\<lambda>s. \<not> skipped s \<and> school_district s = k) (map snd sd)))
      \<and> 0 \<le> d_schools_with_data a \<and> d_schools_with_data a \<le> d_total_schools a"
    using districts_invariant [of "map snd sd"] m
    by (auto split: option.splits dest!: spec [where x = k])
  from i d show "d_total_schools d =
        int (length (filter (\<lambda>s. \<not> skipped s \<and> school_district s = d_district_name d)
                       (map snd sd)))"
    by (simp add: finish_district_fields)
  from i d show "d_schools_with_data d \<le> d_total_schools d"
    by (simp add: finish_district_fields)
next
  fix b assume "b \<in> set (blocks (get_aggregated_data sd))"
  then obtain k a where ka: "(k, a) \<in> set (snd (fold aggregate_school (map snd sd) ([], [])))"
    and b: "b = finish_block a"
    by (auto simp: blocks_of_aggregated)
  from ka have m: "map_of (snd (fold aggregate_school (map snd sd) ([], []))) k = Some a"
    using blocks_invariant [of "map snd sd"] by simp
  have i: "block_key (b_district_name a) (b_block_name a) = k
      \<and> b_total_schools a =
          int (length (filter (\<lambda>s. \<not> skipped s \<and> school_block_key s = k) (map snd sd)))
      \<and> 0 \<le> b_schools_with_data a \<and> b_schools_with_data a \<le> b_total_schools a"
    using blocks_invariant [of "map snd sd"] m
    by (auto split: option.splits dest!: spec [where x = k])
  from i b show "b_total_schools b =
        int (length (filter (\<lambda>s. \<not> skipped s
                                  \<and> school_block_key s = block_key (b_district_name b) (b_block_name b))
                       (map snd sd)))"
    by (simp add: finish_block_fields)
  from i b show "b_schools_with_data b \<le> b_total_schools b"
    by (simp add: finish_block_fields)
qed

lemma three_schools_percentages:
  "parse_aadhaar_percentage 100 90 = 90 \<and> parse_aadhaar_percentage 50 50 = 100
   \<and> parse_aadhaar_percentage 0 0 = 0"
  by (simp add: parse_aadhaar_percentage_def py_round_def round_half_even_def)

lemma three_schools_aggregated:
  assumes "dn \<noteq> []" and "dn \<noteq> ''Unknown''"
  shows "blocks (get_aggregated_data (three_schools dn bn)) =
     [\<lparr>b_district_name = dn, b_block_name = bn, b_total_schools = 3,
       b_total_students = 150, b_aadhaar_sum = 190, b_apaar_sum = 0, b_schools_with_data = 2,
       b_aadhaar_percentage = Some 95, b_apaar_percentage = Some 0\<rparr>]"
  using assms
  by (simp add: three_schools_def get_aggregated_data_def aggregate_school_def skipped_def
      school_district_def school_block_def school_block_key_def parse_enrolment_update_def
      parse_aadhaar_update_def empty_school_def three_schools_percentages dict_init_def
      new_block_def add_to_block_def finish_block_def truthy_real_def get_int_def get_real_def
      py_round_def round_half_even_def)

lemma three_schools_aadhaar_only_aggregated:
  assumes "dn \<noteq> []" and "dn \<noteq> ''Unknown''"
  shows "blocks (get_aggregated_data (three_schools_aadhaar_only dn bn)) =
     [\<lparr>b_district_name = dn, b_block_name = bn, b_total_schools = 3,
       b_total_students = 0, b_aadhaar_sum = 190, b_apaar_sum = 0, b_schools_with_data = 2,
       b_aadhaar_percentage = Some 95, b_apaar_percentage = Some 0\<rparr>]"
  using assms
  by (simp add: three_schools_aadhaar_only_def get_aggregated_data_def aggregate_school_def
      skipped_def school_district_def school_block_def school_block_key_def
      parse_aadhaar_update_def empty_school_def three_schools_percentages dict_init_def
      new_block_def add_to_block_def finish_block_def truthy_real_def get_int_def get_real_def
      py_round_def round_half_even_def)

section \<open>The example scenario\<close>

lemma zero_percent_schools_aggregated:
  "blocks (get_aggregated_data zero_percent_schools) =
     [\<lparr>b_district_name = ''Pune'', b_block_name = ''Haveli'', b_total_schools = 2,
       b_total_students = 200, b_aadhaar_sum = 100, b_apaar_sum = 0, b_schools_with_data = 1,
       b_aadhaar_percentage = Some 100, b_apaar_percentage = Some 0\<rparr>]"
  by (simp add: zero_percent_schools_def get_aggregated_data_def aggregate_school_def
      skipped_def school_district_def school_block_def school_block_key_def
      parse_enrolment_update_def parse_aadhaar_update_def empty_school_def
      parse_aadhaar_percentage_def dict_init_def new_block_def add_to_block_def
      finish_block_def truthy_real_def get_int_def get_real_def py_round_def
      round_half_even_def)

text \<open>
  C1. The claim fails in the percentage. \<open>get_aggregated_data\<close> adds a school's
  percentage, and counts the school in \<open>schools_with_data\<close>, only when
  \<open>school.get("aadhaar_percentage")\<close> is truthy, and \<open>0.0\<close> is not. For the three schools
  of the scenario (per-school percentages \<open>[90.0, 100.0, 0.0]\<close>) the block aggregate has
  \<open>total_schools = 3\<close> and \<open>total_students = 150\<close>, but \<open>schools_with_data = 2\<close> and
  \<open>aadhaar_percentage = 95.0\<close>, where the mean over the block's schools, as
  \<open>get_blocks_from_db\<close> of \<open>server.py\<close> takes it, is \<open>63.3\<close>. The same test drops a
  school with pupils and a true rate of 0: of two schools of 100 pupils with 0 and 100
  authenticated the block reports 100.0, the mean being 50.0.
\<close>

theorem example_scenario_divergence:
  "map (\<lambda>(u, s). (s_total_students s, s_aadhaar_percentage s)) (three_schools ''Pune'' ''Haveli'')
     = [(Some 100, Some 90), (Some 50, Some 100), (Some 0, Some 0)]
   \<and> map (\<lambda>b. (b_total_schools b, b_total_students b, b_schools_with_data b,
                b_aadhaar_percentage b))
        (blocks (get_aggregated_data (three_schools ''Pune'' ''Haveli'')))
     = [(3, 150, 2, Some 95)]
   \<and> server_block_aadhaar_pct (map snd (three_schools ''Pune'' ''Haveli'')) = 633 / 10
   \<and> map (\<lambda>b. (b_total_schools b, b_total_students b, b_schools_with_data b,
                b_aadhaar_percentage b))
        (blocks (get_aggregated_data zero_percent_schools))
     = [(2, 200, 1, Some 100)]
   \<and> server_block_aadhaar_pct (map snd zero_percent_schools) = 50"
proof -
  have a: "map (\<lambda>(u, s). (s_total_students s, s_aadhaar_percentage s))
        (three_schools ''Pune'' ''Haveli'')
      = [(Some 100, Some 90), (Some 50, Some 100), (Some 0, Some 0)]"
    by (simp add: three_schools_def parse_enrolment_update_def parse_aadhaar_update_def
        three_schools_percentages)
  have b: "blocks (get_aggregated_data (three_schools ''Pune'' ''Haveli'')) =
     [\<lparr>b_district_name = ''Pune'', b_block_name = ''Haveli'', b_total_schools = 3,
       b_total_students = 150, b_aadhaar_sum = 190, b_apaar_sum = 0, b_schools_with_data = 2,
       b_aadhaar_percentage = Some 95, b_apaar_percentage = Some 0\<rparr>]"
    by (rule three_schools_aggregated) simp_all
  have c: "server_block_aadhaar_pct (map snd (three_schools ''Pune'' ''Haveli'')) = 633 / 10"
    by (simp add: server_block_aadhaar_pct_def three_schools_def parse_enrolment_update_def
        parse_aadhaar_update_def three_schools_percentages get_real_def py_round_def
        round_half_even_def)
  have d: "server_block_aadhaar_pct (map snd zero_percent_schools) = 50"
    by (simp add: server_block_aadhaar_pct_def zero_percent_schools_def
        parse_enrolment_update_def parse_aadhaar_update_def parse_aadhaar_percentage_def
        get_real_def py_round_def round_half_even_def)
  show ?thesis by (simp add: a b c d zero_percent_schools_aggregated)
qed

section \<open>Conservation of the school count\<close>

lemma block_key_inj:
  assumes "CHR ''|'' \<notin> set d1" and "CHR ''|'' \<notin> set d2"
    and "block_key d1 b1 = block_key d2 b2"
  shows "d1 = d2 \<and> b1 = b2"
proof -
  have t: "takeWhile (\<lambda>c. c \<noteq> CHR ''|'') (d @ CHR ''|'' # b) = d" if "CHR ''|'' \<notin> set d" for d b
    using that by (induction d) auto
  have "takeWhile (\<lambda>c. c \<noteq> CHR ''|'') (block_key d1 b1) = d1"
    using t [OF assms(1)] by (simp add: block_key_def)
  moreover have "takeWhile (\<lambda>c. c \<noteq> CHR ''|'') (block_key d2 b2) = d2"
    using t [OF assms(2)] by (simp add: block_key_def)
  ultimately have "d1 = d2" using assms(3) by simp
  then show ?thesis using assms(3) by (simp add: block_key_def)
qed

lemma sum_dict_init:
  "(\<Sum>b\<leftarrow>filter P (map snd (dict_init k v al)). g b) =
     (\<Sum>b\<leftarrow>filter P (map snd al). g b)
     + (if map_of al k = None \<and> P v then g v else (0::int))"
  by (simp add: dict_init_def)

lemma sum_map_entry:
  assumes "map_of al k = Some b" and "P (f b) = P b"
  shows "(\<Sum>x\<leftarrow>filter P (map snd (AList.map_entry k f al)). g x) =
     (\<Sum>x\<leftarrow>filter P (map snd al). g x) + (if P b then g (f b) - g b else (0::int))"
  using assms by (induction al) (auto split: if_splits)

lemma map_of_dict_init_same:
  "map_of (dict_init k v al) k = Some (case map_of al k of None \<Rightarrow> v | Some x \<Rightarrow> x)"
  by (simp add: map_of_dict_init split: option.splits)

lemma conservation_invariant:
  assumes "\<forall>s\<in>set xs. CHR ''|'' \<notin> set (school_district s)"
  shows "(\<forall>k b. map_of (snd (fold aggregate_school xs ([], []))) k = Some b \<longrightarrow>
            CHR ''|'' \<notin> set (b_district_name b))
    \<and> (\<forall>dn. (\<Sum>b\<leftarrow>filter (\<lambda>b. b_district_name b = dn)
                    (map snd (snd (fold aggregate_school xs ([], [])))). b_total_schools b)
            = (case map_of (fst (fold aggregate_school xs ([], []))) dn of
                 None \<Rightarrow> 0 | Some d \<Rightarrow> d_total_schools d))"
  using assms
proof (induction xs rule: rev_induct)
  case Nil
  show ?case by simp
next
  case (snoc x xs)
  define ds where "ds = fst (fold aggregate_school xs ([], []))"
  define bs where "bs = snd (fold aggregate_school xs ([], []))"
  have free: "\<And>k b. map_of bs k = Some b \<Longrightarrow> CHR ''|'' \<notin> set (b_district_name b)"
    and sums: "\<And>dn. (\<Sum>b\<leftarrow>filter (\<lambda>b. b_district_name b = dn) (map snd bs). b_total_schools b)
            = (case map_of ds dn of None \<Rightarrow> 0 | Some d \<Rightarrow> d_total_schools d)"
    using snoc unfolding ds_def bs_def by auto
  have xfree: "CHR ''|'' \<notin> set (school_district x)" using snoc.prems by simp
  have keys: "\<And>k b. map_of bs k = Some b \<Longrightarrow> block_key (b_district_name b) (b_block_name b) = k"
    using blocks_invariant [of xs] unfolding bs_def
    by (auto split: option.splits dest!: spec)
  have dstep: "fst (aggregate_school x (fold aggregate_school xs ([], []))) =
      (if skipped x then ds
       else AList.map_entry (school_district x) (add_to_district x)
              (dict_init (school_district x) (new_district (school_district x)) ds))"
    by (simp add: fst_aggregate_school ds_def)
  have bstep: "snd (aggregate_school x (fold aggregate_school xs ([], []))) =
      (if skipped x then bs
       else AList.map_entry (school_block_key x) (add_to_block x)
              (dict_init (school_block_key x)
                 (new_block (school_district x) (school_block x)) bs))"
    by (simp add: snd_aggregate_school bs_def)
  show ?case
  proof (cases "skipped x")
    case True
    then show ?thesis using free sums by (simp add: dstep bstep)
  next
    case False
    define b0 where "b0 = (case map_of bs (school_block_key x) of
        None \<Rightarrow> new_block (school_district x) (school_block x) | Some b \<Rightarrow> b)"
    have b0d: "b_district_name b0 = school_district x"
    proof (cases "map_of bs (school_block_key x)")
      case None
      then show ?thesis by (simp add: b0_def new_block_fields)
    next
      case (Some b)
      have "block_key (b_district_name b) (b_block_name b)
          = block_key (school_district x) (school_block x)"
        using keys [OF Some] by (simp add: school_block_key_def)
      then have "b_district_name b = school_district x"
        using block_key_inj [OF free [OF Some] xfree] by blast
      with Some show ?thesis by (simp add: b0_def)
    qed
    have f: "CHR ''|'' \<notin> set (b_district_name b)"
      if "map_of (snd (aggregate_school x (fold aggregate_school xs ([], [])))) k = Some b" for k b
      using that False free xfree b0d
      by (auto simp: bstep map_of_init_entry add_to_block_fields b0_def split: if_splits)
    have s: "(\<Sum>b\<leftarrow>filter (\<lambda>b. b_district_name b = dn)
                (map snd (snd (aggregate_school x (fold aggregate_school xs ([], []))))).
                b_total_schools b)
          = (case map_of (fst (aggregate_school x (fold aggregate_school xs ([], [])))) dn of
               None \<Rightarrow> 0 | Some d \<Rightarrow> d_total_schools d)" for dn
    proof -
      let ?P = "\<lambda>b. b_district_name b = dn"
      let ?bs1 = "dict_init (school_block_key x)
                 (new_block (school_district x) (school_block x)) bs"
      have m1: "map_of ?bs1 (school_block_key x) = Some b0"
        by (simp add: map_of_dict_init_same b0_def)
      have "(\<Sum>b\<leftarrow>filter ?P (map snd (AList.map_entry (school_block_key x) (add_to_block x) ?bs1)).
              b_total_schools b)
          = (\<Sum>b\<leftarrow>filter ?P (map snd ?bs1). b_total_schools b)
            + (if ?P b0 then b_total_schools (add_to_block x b0) - b_total_schools b0 else 0)"
        by (rule sum_map_entry [OF m1]) (simp add: add_to_block_fields)
      also have "\<dots> = (\<Sum>b\<leftarrow>filter ?P (map snd bs). b_total_schools b)
            + (if school_district x = dn then 1 else 0)"
        by (simp add: sum_dict_init b0d add_to_block_fields new_block_fields)
      also have "\<dots> = (case map_of ds dn of None \<Rightarrow> 0 | Some d \<Rightarrow> d_total_schools d)
            + (if school_district x = dn then 1 else 0)"
        by (simp add: sums)
      also have "\<dots> = (case map_of (fst (aggregate_school x (fold aggregate_school xs ([], [])))) dn of
               None \<Rightarrow> 0 | Some d \<Rightarrow> d_total_schools d)"
        using False
        by (auto simp: dstep map_of_init_entry add_to_district_fields new_district_fields
            split: option.splits)
      finally show ?thesis using False by (simp add: bstep)
    qed
    from f s show ?thesis by (simp only: fold_append o_apply fold_simps) blast
  qed
qed

text \<open>
  When no district name contains the separator \<open>|\<close>, the block key determines the
  district, and the block totals of every district sum to the district's total.
\<close>

lemma aggregation_conservation:
  assumes "\<forall>(u, s)\<in>set sd. CHR ''|'' \<notin> set (school_district s)"
  shows "\<forall>d\<in>set (districts (get_aggregated_data sd)).
     (\<Sum>b\<leftarrow>filter (\<lambda>b. b_district_name b = d_district_name d)
          (blocks (get_aggregated_data sd)). b_total_schools b) = d_total_schools d"
proof
  fix d assume "d \<in> set (districts (get_aggregated_data sd))"
  then obtain k a where ka: "(k, a) \<in> set (fst (fold aggregate_school (map snd sd) ([], [])))"
    and d: "d = finish_district a"
    by (auto simp: districts_of_aggregated)
  from ka have m: "map_of (fst (fold aggregate_school (map snd sd) ([], []))) k = Some a"
    using districts_invariant [of "map snd sd"] by simp
  have n: "d_district_name a = k"
    using districts_invariant [of "map snd sd"] m
    by (auto split: option.splits dest!: spec [where x = k])
  have h: "\<forall>s\<in>set (map snd sd). CHR ''|'' \<notin> set (school_district s)"
    using assms by auto
  have fin: "(\<Sum>b\<leftarrow>filter (\<lambda>b. b_district_name b = k) (map (\<lambda>(k, b). finish_block b) bs).
        b_total_schools b)
      = (\<Sum>b\<leftarrow>filter (\<lambda>b. b_district_name b = k) (map snd bs). b_total_schools b)"
    for bs :: "(string \<times> block) list"
    by (induction bs) (auto simp: finish_block_fields)
  have "(\<Sum>b\<leftarrow>filter (\<lambda>b. b_district_name b = k) (blocks (get_aggregated_data sd)).
        b_total_schools b) = d_total_schools a"
    using conservation_invariant [OF h] m by (simp add: blocks_of_aggregated fin)
  with d n show "(\<Sum>b\<leftarrow>filter (\<lambda>b. b_district_name b = d_district_name d)
          (blocks (get_aggregated_data sd)). b_total_schools b) = d_total_schools d"
    by (simp add: finish_district_fields)
qed

text \<open>
  C2. The claim fails at \<open>colliding_schools\<close>: the two schools lie in different
  districts, but both block keys are the string \<open>A|B|C\<close>, so the second school is added
  to the block aggregate that the first created. The districts \<open>A|B\<close> and \<open>A\<close> count one
  school each, while the only block aggregate (of district \<open>A|B\<close>) counts two: the block
  totals of district \<open>A|B\<close> sum to 2 and those of district \<open>A\<close> to 0. Where no
  district name contains \<open>|\<close> the sums agree (\<open>aggregation_conservation\<close>).
\<close>

theorem block_key_collision:
  "map (\<lambda>d. (d_district_name d, d_total_schools d))
      (districts (get_aggregated_data colliding_schools)) = [(''A|B'', 1), (''A'', 1)]
   \<and> map (\<lambda>b. (b_district_name b, b_block_name b, b_total_schools b))
      (blocks (get_aggregated_data colliding_schools)) = [(''A|B'', ''C'', 2)]
   \<and> (\<Sum>b\<leftarrow>filter (\<lambda>b. b_district_name b = ''A|B'')
        (blocks (get_aggregated_data colliding_schools)). b_total_schools b) = 2
   \<and> (\<Sum>b\<leftarrow>filter (\<lambda>b. b_district_name b = ''A'')
        (blocks (get_aggregated_data colliding_schools)). b_total_schools b) = 0"
  by (simp add: colliding_schools_def get_aggregated_data_def aggregate_school_def skipped_def
      school_district_def school_block_def school_block_key_def block_key_def empty_school_def
      dict_init_def new_block_def new_district_def add_to_block_def add_to_district_def
      finish_block_def finish_district_def truthy_real_def truthy_bool_def get_int_def
      get_real_def)

section \<open>Counting the schools of a block\<close>

text \<open>
  When no district name contains \<open>|\<close>, the \<open>total_schools\<close> of a block aggregate is the
  number of contributing records with the aggregate's district and block name.
\<close>

lemma aggregate_invariant_by_pair:
  assumes "\<forall>(u, s)\<in>set sd. CHR ''|'' \<notin> set (school_district s)"
  shows "\<forall>b\<in>set (blocks (get_aggregated_data sd)).
     b_total_schools b =
       int (length (filter (\<lambda>s. \<not> skipped s \<and> school_district s = b_district_name b
                                 \<and> school_block s = b_block_name b) (map snd sd)))"
proof
  fix b assume bm: "b \<in> set (blocks (get_aggregated_data sd))"
  then obtain k a where ka: "(k, a) \<in> set (snd (fold aggregate_school (map snd sd) ([], [])))"
    and b: "b = finish_block a"
    by (auto simp: blocks_of_aggregated)
  from ka have m: "map_of (snd (fold aggregate_school (map snd sd) ([], []))) k = Some a"
    using blocks_invariant [of "map snd sd"] by simp
  have h: "\<forall>s\<in>set (map snd sd). CHR ''|'' \<notin> set (school_district s)"
    using assms by auto
  have "CHR ''|'' \<notin> set (b_district_name a)"
    using conservation_invariant [OF h] m by blast
  then have free: "CHR ''|'' \<notin> set (b_district_name b)"
    by (simp add: b finish_block_fields)
  have eq: "filter (\<lambda>s. \<not> skipped s
                \<and> school_block_key s = block_key (b_district_name b) (b_block_name b))
              (map snd sd)
      = filter (\<lambda>s. \<not> skipped s \<and> school_district s = b_district_name b
                \<and> school_block s = b_block_name b) (map snd sd)"
  proof (rule filter_cong [OF refl])
    fix s assume "s \<in> set (map snd sd)"
    then have sf: "CHR ''|'' \<notin> set (school_district s)" using h by blast
    have "(school_block_key s = block_key (b_district_name b) (b_block_name b))
        = (school_district s = b_district_name b \<and> school_block s = b_block_name b)"
      using block_key_inj [OF sf free] by (auto simp: school_block_key_def)
    then show "(\<not> skipped s
          \<and> school_block_key s = block_key (b_district_name b) (b_block_name b))
        = (\<not> skipped s \<and> school_district s = b_district_name b
          \<and> school_block s = b_block_name b)"
      by simp
  qed
  show "b_total_schools b =
       int (length (filter (\<lambda>s. \<not> skipped s \<and> school_district s = b_district_name b
                                 \<and> school_block s = b_block_name b) (map snd sd)))"
  proof -
    have "b_total_schools b =
        int (length (filter (\<lambda>s. \<not> skipped s
                \<and> school_block_key s = block_key (b_district_name b) (b_block_name b))
              (map snd sd)))"
      using aggregate_invariant [of sd] bm by blast
    then show ?thesis by (simp only: eq)
  qed
qed

text \<open>
  C9. The claim fails for the block aggregates at \<open>colliding_schools\<close>, by the defect
  of C2: both schools get the block key \<open>A|B|C\<close>, so the block aggregate of district
  \<open>A|B\<close> and block \<open>C\<close> reports \<open>total_schools = 2\<close> although one school record has that
  district and block. The district aggregates there count one school each, and
  \<open>schools_with_data\<close> is at most \<open>total_schools\<close> in every aggregate
  (\<open>aggregate_invariant\<close>).
\<close>

theorem block_count_collision:
  "map (\<lambda>b. (b_district_name b, b_block_name b, b_total_schools b,
             int (length (filter (\<lambda>s. \<not> skipped s \<and> school_district s = b_district_name b
                                       \<and> school_block s = b_block_name b)
                            (map snd colliding_schools)))))
      (blocks (get_aggregated_data colliding_schools))
     = [(''A|B'', ''C'', 2, 1)]"
  by (simp add: colliding_schools_def get_aggregated_data_def aggregate_school_def skipped_def
      school_district_def school_block_def school_block_key_def block_key_def empty_school_def
      dict_init_def new_block_def add_to_block_def finish_block_def truthy_real_def
      get_int_def get_real_def)

end
